theory Spec2Isabelle
  imports Main
begin

section \<open>LowCard engine: data model\<close>

text \<open>
  The embedding follows \<^verbatim>\<open>src/services/lowcardService.js\<close> for one room. The keyed
  store is a record with one field per key of the room, the \<^verbatim>\<open>users.credits\<close> column is a
  map from user ids to balances, and every entry point takes the world and returns its
  reply together with the new world. Clock readings (\<^verbatim>\<open>Date.now()\<close>), lock tokens
  (\<^verbatim>\<open>crypto.randomBytes\<close>), shuffles (\<^verbatim>\<open>Math.random\<close>) and infrastructure faults are
  inputs of the call. The append-only tables (\<^verbatim>\<open>credit_logs\<close>, \<^verbatim>\<open>game_history\<close>,
  \<^verbatim>\<open>lowcard_games\<close>, \<^verbatim>\<open>lowcard_history\<close>) are written but never read back by the
  engine, and are left out. Numbers are JavaScript doubles holding integers; they are
  modelled as \<open>int\<close>, which agrees with the source below \<open>2 ^ 53\<close>.
\<close>

record card =
  cvalue :: int
  suit :: char
  code :: string

record player =
  userId :: nat
  username :: string
  isEliminated :: bool
  hasDrawn :: bool
  currentCard :: "card option"
  inTieBreaker :: bool

datatype status = Waiting | Playing | Finished

record game =
  gid :: nat
  status :: status
  entryAmount :: int
  pot :: int
  currentRound :: int
  players :: "player list"
  startedBy :: nat
  createdAt :: int
  joinDeadline :: "int option"
  countdownEndsAt :: "int option"
  roundDeadline :: "int option"
  isTieBreaker :: bool
  wasTieBreaker :: bool
  isRoundStarted :: bool
  winnerId :: "nat option"
  winnings :: "int option"
  houseFee :: "int option"

record timer =
  phase :: string
  expiresAt :: int

record world =
  users :: "nat \<rightharpoonup> int"
  creditsCache :: "nat \<rightharpoonup> int"
  gameKey :: "game option"
  deckKey :: "card list option"
  timerKey :: "timer option"
  locks :: "string \<rightharpoonup> string"
  merchantTags :: "nat \<rightharpoonup> nat"
  merchantIncome :: "nat \<Rightarrow> int"

definition JOIN_TIMEOUT :: int where "JOIN_TIMEOUT = 30000"
definition DRAW_TIMEOUT :: int where "DRAW_TIMEOUT = 20000"
definition COUNTDOWN_DELAY :: int where "COUNTDOWN_DELAY = 3000"
definition MIN_ENTRY :: int where "MIN_ENTRY = 1"
definition MAX_ENTRY :: int where "MAX_ENTRY = 999999999"
definition MIN_ENTRY_BIG_GAME :: int where "MIN_ENTRY_BIG_GAME = 50"
definition STALE_GAME_TIMEOUT :: int where "STALE_GAME_TIMEOUT = 120000"
definition HOUSE_FEE_PERCENT :: int where "HOUSE_FEE_PERCENT = 10"

definition startLock :: string where "startLock = ''lowcard:lock''"
definition joinLock :: string where "joinLock = ''lowcard:joinlock''"
definition drawLock :: string where "drawLock = ''lowcard:drawlock''"

text \<open>JavaScript truthiness of an optional number: absent and \<open>0\<close> are falsy.\<close>

definition truthy :: "int option \<Rightarrow> bool" where
  "truthy x = (case x of None \<Rightarrow> False | Some n \<Rightarrow> n \<noteq> 0)"

section \<open>Lock manager\<close>

text \<open>
  \<^verbatim>\<open>acquireLock\<close> is \<^verbatim>\<open>SET key token EX ttl NX\<close>: the token is stored only when the key
  is absent. \<^verbatim>\<open>releaseLock\<close> runs the script
  \<^verbatim>\<open>if get(k) == token then del(k) else 0\<close>. Expiry of the TTL is an event of the store.
\<close>

definition acquireLock :: "('k \<rightharpoonup> string) \<Rightarrow> 'k \<Rightarrow> string \<Rightarrow> string option \<times> ('k \<rightharpoonup> string)" where
  "acquireLock s k token =
     (if s k = None then (Some token, s(k \<mapsto> token)) else (None, s))"

definition releaseLock :: "('k \<rightharpoonup> string) \<Rightarrow> 'k \<Rightarrow> string \<Rightarrow> ('k \<rightharpoonup> string)" where
  "releaseLock s k token = (if s k = Some token then s(k := None) else s)"

definition expire :: "('k \<rightharpoonup> string) \<Rightarrow> 'k \<Rightarrow> ('k \<rightharpoonup> string)" where
  "expire s k = s(k := None)"

text \<open>
  \<^verbatim>\<open>acquireLockWithRetry\<close>: one fresh token per attempt; between the attempts of one
  sequential call nothing else writes the store.
\<close>

fun acquireLockWithRetry :: "('k \<rightharpoonup> string) \<Rightarrow> 'k \<Rightarrow> string list \<Rightarrow> string option \<times> ('k \<rightharpoonup> string)" where
  "acquireLockWithRetry s k [] = (None, s)"
| "acquireLockWithRetry s k (t # ts) =
     (case acquireLock s k t of
        (Some token, s') \<Rightarrow> (Some token, s')
      | (None, s') \<Rightarrow> acquireLockWithRetry s' k ts)"

section \<open>Replies\<close>

text \<open>
  The text of a reply is one constructor per message of the source:
  \<^item> \<open>PleaseWait\<close>: \<^verbatim>\<open>Please wait, another action is in progress.\<close>
  \<^item> \<open>AlreadyInProgress\<close>: \<^verbatim>\<open>A game is already in progress. Use !j to join.\<close>
  \<^item> \<open>MinimalCoins n\<close>: \<^verbatim>\<open>Minimal n COINS to start game.\<close>
  \<^item> \<open>MaximalCoins n\<close>: \<^verbatim>\<open>Maximal n COINS to start game.\<close>
  \<^item> \<open>NotEnoughCredit\<close>: \<^verbatim>\<open>You not enough credite\<close>
  \<^item> \<open>FailedToCreate\<close>: \<^verbatim>\<open>Failed to create game. Credits refunded. Please try again.\<close>
  \<^item> \<open>VerificationFailed\<close>: \<^verbatim>\<open>Game verification failed. Credits refunded. Please try again.\<close>
  \<^item> \<open>CreationError\<close>: \<^verbatim>\<open>Game creation error. Credits refunded. Please try again.\<close>
  \<^item> \<open>StartedBy\<close>: \<^verbatim>\<open>LowCard started by u. Enter !j to join the game. Cost: n COINS [30s]\<close>
  \<^item> \<open>ServerBusy\<close>: \<^verbatim>\<open>Server busy, please try !j again.\<close>
  \<^item> \<open>JoinInProgress\<close>: \<^verbatim>\<open>Game already in progress. Wait for the next round.\<close>
  \<^item> \<open>JoinPeriodEnded\<close>: \<^verbatim>\<open>Join period has ended.\<close>
  \<^item> \<open>AlreadyJoined\<close>: \<^verbatim>\<open>LowCardBot: You have already joined this game.\<close>
  \<^item> \<open>Joined\<close>: \<^verbatim>\<open>u joined the game.\<close>
  \<^item> \<open>Processing\<close>: \<^verbatim>\<open>Processing, please try again.\<close>
  \<^item> \<open>NotInProgress\<close>: \<^verbatim>\<open>Game is not in progress.\<close>
  \<^item> \<open>WaitCountdown\<close>: \<^verbatim>\<open>Wait for countdown to finish.\<close>
  \<^item> \<open>NotInGame\<close>: \<^verbatim>\<open>[PVT] You are not in this game\<close>
  \<^item> \<open>OnlyTied\<close>: \<^verbatim>\<open>[PVT] u: Only tied players can draw now. Please wait...\<close>
  \<^item> \<open>AlreadyDrew\<close>: \<^verbatim>\<open>[PVT] u: you already drew.\<close>
  \<^item> \<open>Drew\<close>: \<^verbatim>\<open>u: [CARD:code]\<close>
  \<^item> \<open>CannotCancel\<close>: \<^verbatim>\<open>u: Cannot cancel, game already started.\<close>
  \<^item> \<open>OnlyStarter\<close>: \<^verbatim>\<open>u: Only the game starter can cancel.\<close>
  \<^item> \<open>CancelledBy\<close>: \<^verbatim>\<open>Game cancelled by u. n player(s) refunded a COINS each.\<close>
  \<^item> \<open>NoGameToStop\<close>: \<^verbatim>\<open>No active game to stop.\<close>
  \<^item> \<open>CannotStop\<close>: \<^verbatim>\<open>Cannot stop game once it has started.\<close>
  \<^item> \<open>Stopped\<close>: \<^verbatim>\<open>Game stopped. All credits have been refunded.\<close>
  \<^item> \<open>NoGameToReset\<close>: \<^verbatim>\<open>No active game to reset.\<close>
  \<^item> \<open>ResetDone\<close>: \<^verbatim>\<open>Game reset. n player(s) refunded a COINS each.\<close>
\<close>

datatype msg =
    PleaseWait | AlreadyInProgress | MinimalCoins int | MaximalCoins int | NotEnoughCredit
  | FailedToCreate | VerificationFailed | CreationError | StartedBy string int
  | ServerBusy | JoinInProgress | JoinPeriodEnded | AlreadyJoined | Joined string
  | Processing | NotInProgress | WaitCountdown | NotInGame | OnlyTied string
  | AlreadyDrew string | Drew string string
  | CannotCancel string | OnlyStarter string | CancelledBy string nat int
  | NoGameToStop | CannotStop | Stopped | NoGameToReset | ResetDone nat int

record reply =
  success :: bool
  message :: "msg option"
  silent :: bool
  isPvt :: bool
  gameId :: "nat option"
  newBalance :: "int option"
  playerCount :: "nat option"
  potOut :: "int option"
  cardOut :: "card option"

definition reject :: "msg option \<Rightarrow> bool \<Rightarrow> bool \<Rightarrow> reply" where
  "reject m sil pvt =
     \<lparr>success = False, message = m, silent = sil, isPvt = pvt, gameId = None,
      newBalance = None, playerCount = None, potOut = None, cardOut = None\<rparr>"

definition accept :: "msg \<Rightarrow> reply" where
  "accept m =
     \<lparr>success = True, message = Some m, silent = False, isPvt = False, gameId = None,
      newBalance = None, playerCount = None, potOut = None, cardOut = None\<rparr>"

section \<open>Ledger\<close>

text \<open>
  \<^verbatim>\<open>getUserCredits\<close> is a cache-aside read: the cached balance when there is one,
  otherwise the \<^verbatim>\<open>users.credits\<close> column (\<open>0\<close> for a missing row), which it writes to
  the cache.
\<close>

definition getUserCredits :: "world \<Rightarrow> nat \<Rightarrow> int \<times> world" where
  "getUserCredits w uid =
     (case creditsCache w uid of
        Some c \<Rightarrow> (c, w)
      | None \<Rightarrow>
          (let balance = (case users w uid of Some b \<Rightarrow> b | None \<Rightarrow> 0)
           in (balance, w\<lparr>creditsCache := (creditsCache w)(uid \<mapsto> balance)\<rparr>)))"

text \<open>
  \<^verbatim>\<open>addCredits\<close>: \<^verbatim>\<open>UPDATE users SET credits = credits + $1 WHERE id = $2 RETURNING credits\<close>,
  then the write-through to the cache. No row is updated for an unknown user, and the
  reply is \<^verbatim>\<open>{success: false, balance: 0}\<close>.
\<close>

definition addCredits :: "world \<Rightarrow> nat \<Rightarrow> int \<Rightarrow> (bool \<times> int) \<times> world" where
  "addCredits w uid amount =
     (case users w uid of
        Some b \<Rightarrow>
          ((True, b + amount),
           w\<lparr>users := (users w)(uid \<mapsto> b + amount),
             creditsCache := (creditsCache w)(uid \<mapsto> b + amount)\<rparr>)
      | None \<Rightarrow> ((False, 0), w))"

text \<open>
  The merchant-tag service is not part of the sources given; its two calls are inputs of
  \<^verbatim>\<open>deductCredits\<close>: the tagged balance of a user, and the reply of
  \<^verbatim>\<open>consumeForGame(userId, 'lowcard', amount)\<close>.
\<close>

record consumeResult =
  consumed :: bool
  usedTaggedCredits :: int
  remainingAmount :: int

record tagHook =
  getTaggedBalance :: "nat \<Rightarrow> int"
  consumeForGame :: "nat \<Rightarrow> int \<Rightarrow> consumeResult"

definition regularAmount :: "tagHook \<Rightarrow> nat \<Rightarrow> int \<Rightarrow> int" where
  "regularAmount h uid amount =
     (if getTaggedBalance h uid > 0 then
        (let c = consumeForGame h uid amount
         in if consumed c then remainingAmount c else amount)
      else amount)"

definition deductCredits :: "world \<Rightarrow> tagHook \<Rightarrow> nat \<Rightarrow> int \<Rightarrow> (bool \<times> int) \<times> world" where
  "deductCredits w h uid amount =
     (let remaining = regularAmount h uid amount;
          (current, w1) = getUserCredits w uid
      in if remaining \<le> 0 then ((True, current), w1)
         else if current < remaining then ((False, current), w1)
         else (case users w1 uid of
                 None \<Rightarrow> ((False, current), w1)
               | Some b \<Rightarrow>
                   if b \<ge> remaining then
                     ((True, b - remaining),
                      w1\<lparr>users := (users w1)(uid \<mapsto> b - remaining),
                         creditsCache := (creditsCache w1)(uid \<mapsto> b - remaining)\<rparr>)
                   else ((False, current), w1)))"

text \<open>The refund loop \<^verbatim>\<open>for (const player of game.players) await addCredits(...)\<close>.\<close>

fun refundAll :: "world \<Rightarrow> int \<Rightarrow> player list \<Rightarrow> world" where
  "refundAll w amount [] = w"
| "refundAll w amount (p # ps) = refundAll (snd (addCredits w (userId p) amount)) amount ps"

section \<open>Deck service\<close>

definition CARD_SUITS :: "char list" where
  "CARD_SUITS = [CHR ''h'', CHR ''d'', CHR ''c'', CHR ''s'']"

definition CARD_VALUES :: "int list" where
  "CARD_VALUES = [2, 3, 4, 5, 6, 7, 8, 9, 10, 11, 12, 13, 14]"

definition digit :: "nat \<Rightarrow> char" where
  "digit d = ''0123456789'' ! d"

function decimal :: "nat \<Rightarrow> string" where
  "decimal n = (if n < 10 then [digit n] else decimal (n div 10) @ [digit (n mod 10)])"
  by pat_completeness auto
termination
  by (relation "measure id") auto

definition getCardCode :: "int \<Rightarrow> string" where
  "getCardCode v =
     (if v = 11 then ''j'' else if v = 12 then ''q'' else if v = 13 then ''k''
      else if v = 14 then ''a'' else decimal (nat v))"

definition mkCard :: "char \<Rightarrow> int \<Rightarrow> card" where
  "mkCard s v = \<lparr>cvalue = v, suit = s, code = ''lc_'' @ getCardCode v @ [s]\<rparr>"

text \<open>
  Fisher-Yates: \<open>rnd i\<close> is the random draw of step \<open>i\<close>, reduced to \<open>0..i\<close> as
  \<^verbatim>\<open>Math.floor(Math.random() * (i + 1))\<close> is.
\<close>

fun shuffleFrom :: "(nat \<Rightarrow> nat) \<Rightarrow> nat \<Rightarrow> 'a list \<Rightarrow> 'a list" where
  "shuffleFrom rnd 0 xs = xs"
| "shuffleFrom rnd (Suc i) xs =
     (let j = rnd (Suc i) mod (Suc i + 1)
      in shuffleFrom rnd i (xs[Suc i := xs ! j, j := xs ! Suc i]))"

definition shuffleDeck :: "(nat \<Rightarrow> nat) \<Rightarrow> 'a list \<Rightarrow> 'a list" where
  "shuffleDeck rnd deck = shuffleFrom rnd (length deck - 1) deck"

definition generateDeck :: "(nat \<Rightarrow> nat) \<Rightarrow> card list" where
  "generateDeck rnd = shuffleDeck rnd (concat (map (\<lambda>s. map (mkCard s) CARD_VALUES) CARD_SUITS))"

text \<open>\<^verbatim>\<open>deck.pop()\<close> takes the last card; on an empty array it gives \<^verbatim>\<open>undefined\<close>.\<close>

definition drawCardFromDeck :: "world \<Rightarrow> (nat \<Rightarrow> nat) \<Rightarrow> card option \<times> world" where
  "drawCardFromDeck w rnd =
     (let deck = (case deckKey w of
                    None \<Rightarrow> generateDeck rnd
                  | Some d \<Rightarrow> if d = [] then generateDeck rnd else d);
          card = (if deck = [] then None else Some (last deck))
      in (card, w\<lparr>deckKey := Some (butlast deck)\<rparr>))"

definition initializeDeck :: "world \<Rightarrow> (nat \<Rightarrow> nat) \<Rightarrow> world" where
  "initializeDeck w rnd = w\<lparr>deckKey := Some (generateDeck rnd)\<rparr>"

definition clearDeck :: "world \<Rightarrow> world" where
  "clearDeck w = w\<lparr>deckKey := None\<rparr>"

definition clearTimer :: "world \<Rightarrow> world" where
  "clearTimer w = w\<lparr>timerKey := None\<rparr>"

definition cleanupRedisKeys :: "world \<Rightarrow> world" where
  "cleanupRedisKeys w =
     w\<lparr>gameKey := None, deckKey := None, timerKey := None,
       locks := (locks w)(startLock := None, joinLock := None, drawLock := None)\<rparr>"

section \<open>Stale games and start\<close>

datatype staleResult = Cleaned

definition checkAndCleanupStaleGame :: "world \<Rightarrow> int \<Rightarrow> staleResult option \<times> world" where
  "checkAndCleanupStaleGame w now =
     (case gameKey w of
        None \<Rightarrow> (None, w)
      | Some g \<Rightarrow>
          (case joinDeadline g of
             None \<Rightarrow> (None, w)
           | Some jd \<Rightarrow>
               if status g = Waiting \<and> jd \<noteq> 0 then
                 (if now > jd + STALE_GAME_TIMEOUT then
                    (Some Cleaned,
                     clearDeck (clearTimer
                       ((refundAll w (entryAmount g) (players g))\<lparr>gameKey := None\<rparr>)))
                  else (None, w))
               else (None, w)))"

text \<open>
  The second step of \<^verbatim>\<open>startGame\<close>: a game that is still there is either stuck (waiting,
  no timer, created more than 40 s ago: refund and delete), in progress (reject), or
  residue (delete).
\<close>

definition clearExisting :: "world \<Rightarrow> int \<Rightarrow> reply option \<times> world" where
  "clearExisting w now =
     (case gameKey w of
        None \<Rightarrow> (None, w)
      | Some g \<Rightarrow>
          if status g = Waiting \<or> status g = Playing then
            (if timerKey w = None \<and> status g = Waiting \<and> now - createdAt g > 40000 then
               (None, clearDeck ((refundAll w (entryAmount g) (players g))\<lparr>gameKey := None\<rparr>))
             else (Some (reject (Some AlreadyInProgress) False True), w))
          else (None, w\<lparr>gameKey := None\<rparr>))"

text \<open>
  What the environment contributes to one call of \<^verbatim>\<open>startGame\<close>: the clock, whether the
  room's name contains \<^verbatim>\<open>big game\<close>, the merchant-tag service, and the faults that can
  follow the deduction: the insert into \<^verbatim>\<open>game_history\<close> throwing, the write of the
  snapshot returning nothing or throwing, the read-back finding nothing or throwing, and
  the \<^verbatim>\<open>UPDATE\<close> of the refund failing. \<open>dbGameId\<close> is the id returned by the insert into
  \<^verbatim>\<open>lowcard_games\<close>, if any.
\<close>

datatype setOutcome = SetOk | SetFalsy | SetThrows
datatype getOutcome = GetOk | GetMissing | GetThrows

record startEnv =
  clock :: int
  isBigGame :: bool
  hook :: tagHook
  historyInsertThrows :: bool
  dbGameId :: "nat option"
  gameSet :: setOutcome
  verify :: getOutcome
  refundFails :: bool

definition newPlayer :: "nat \<Rightarrow> string \<Rightarrow> player" where
  "newPlayer uid uname =
     \<lparr>userId = uid, username = uname, isEliminated = False, hasDrawn = False,
      currentCard = None, inTieBreaker = False\<rparr>"

definition newGame :: "startEnv \<Rightarrow> nat \<Rightarrow> string \<Rightarrow> int \<Rightarrow> game" where
  "newGame e uid uname entry =
     \<lparr>gid = (case dbGameId e of Some i \<Rightarrow> i | None \<Rightarrow> nat (clock e)),
      status = Waiting, entryAmount = entry, pot = entry, currentRound = 0,
      players = [newPlayer uid uname], startedBy = uid, createdAt = clock e,
      joinDeadline = Some (clock e + JOIN_TIMEOUT), countdownEndsAt = None,
      roundDeadline = None, isTieBreaker = False, wasTieBreaker = False,
      isRoundStarted = False, winnerId = None, winnings = None, houseFee = None\<rparr>"

text \<open>
  \<^verbatim>\<open>parseInt(amount) || minEntry\<close>: \<open>None\<close> is an amount that is absent or does not
  parse (\<^verbatim>\<open>NaN\<close>); \<^verbatim>\<open>NaN\<close> and \<open>0\<close> are falsy, so both give \<open>minEntry\<close>.
\<close>

definition requestedAmount :: "int option \<Rightarrow> int \<Rightarrow> int" where
  "requestedAmount amount minEntry =
     (case amount of None \<Rightarrow> minEntry | Some n \<Rightarrow> if n = 0 then minEntry else n)"

text \<open>
  The refund of the starter. \<^verbatim>\<open>addCredits\<close> catches a fault of its \<^verbatim>\<open>UPDATE\<close> and returns
  \<^verbatim>\<open>{success: false, balance: 0}\<close>; \<^verbatim>\<open>startGame\<close> does not look at that reply, and the
  ledger stays as the deduction left it.
\<close>

definition refundStarter :: "world \<Rightarrow> startEnv \<Rightarrow> nat \<Rightarrow> int \<Rightarrow> world" where
  "refundStarter w e uid amount =
     (if refundFails e then w else snd (addCredits w uid amount))"

text \<open>The \<^verbatim>\<open>catch\<close> block of \<^verbatim>\<open>startGame\<close>.\<close>

definition rollback :: "world \<Rightarrow> startEnv \<Rightarrow> nat \<Rightarrow> int \<Rightarrow> reply \<times> world" where
  "rollback w e uid deductedAmount =
     (reject (Some CreationError) False True,
      if deductedAmount > 0 then refundStarter w e uid deductedAmount else w)"

text \<open>From the deduction on: \<open>w\<close> is the world after the successful deduction.\<close>

definition createGame :: "world \<Rightarrow> startEnv \<Rightarrow> nat \<Rightarrow> string \<Rightarrow> int \<Rightarrow> int \<Rightarrow> reply \<times> world" where
  "createGame w e uid uname entry balance =
     (if historyInsertThrows e then rollback w e uid entry
      else case gameSet e of
        SetThrows \<Rightarrow> rollback w e uid entry
      | SetFalsy \<Rightarrow>
          (reject (Some FailedToCreate) False True, refundStarter w e uid entry)
      | SetOk \<Rightarrow>
          (let g = newGame e uid uname entry; w1 = w\<lparr>gameKey := Some g\<rparr>
           in case verify e of
                GetThrows \<Rightarrow> rollback w1 e uid entry
              | GetMissing \<Rightarrow>
                  (reject (Some VerificationFailed) False True,
                   refundStarter (w1\<lparr>gameKey := None\<rparr>) e uid entry)
              | GetOk \<Rightarrow>
                  ((accept (StartedBy uname entry))
                     \<lparr>gameId := Some (gid g), newBalance := Some balance\<rparr>, w1)))"

definition startGameLocked :: "world \<Rightarrow> startEnv \<Rightarrow> nat \<Rightarrow> string \<Rightarrow> int option \<Rightarrow> reply \<times> world" where
  "startGameLocked w e uid uname amount =
     (let (staleCheck, w1) = checkAndCleanupStaleGame w (clock e)
      in case clearExisting w1 (clock e) of
           (Some r, w2) \<Rightarrow> (r, w2)
         | (None, w2) \<Rightarrow>
             (let minEntry = (if isBigGame e then MIN_ENTRY_BIG_GAME else MIN_ENTRY);
                  requested = requestedAmount amount minEntry
              in if requested < minEntry then
                   (reject (Some (MinimalCoins minEntry)) False True, w2)
                 else if \<not> isBigGame e \<and> requested > MAX_ENTRY then
                   (reject (Some (MaximalCoins MAX_ENTRY)) False True, w2)
                 else
                   (case deductCredits w2 (hook e) uid requested of
                      ((False, balance), w3) \<Rightarrow>
                        (reject (Some NotEnoughCredit) False True, w3)
                    | ((True, balance), w3) \<Rightarrow>
                        createGame w3 e uid uname requested balance)))"

text \<open>
  \<^verbatim>\<open>startGame\<close> takes the start lock with \<^verbatim>\<open>SET lockKey '1' EX 30 NX\<close> and deletes it
  in its \<^verbatim>\<open>finally\<close> block.
\<close>

definition startGame :: "world \<Rightarrow> startEnv \<Rightarrow> nat \<Rightarrow> string \<Rightarrow> int option \<Rightarrow> reply \<times> world" where
  "startGame w e uid uname amount =
     (if locks w startLock \<noteq> None then (reject (Some PleaseWait) False False, w)
      else
        (let (r, w1) = startGameLocked (w\<lparr>locks := (locks w)(startLock \<mapsto> ''1'')\<rparr>)
                         e uid uname amount
         in (r, w1\<lparr>locks := (locks w1)(startLock := None)\<rparr>)))"

section \<open>Join\<close>

record joinEnv =
  jnow :: int
  jtokens :: "string list"
  jhook :: tagHook

definition joinGameLocked :: "world \<Rightarrow> joinEnv \<Rightarrow> nat \<Rightarrow> string \<Rightarrow> reply \<times> world" where
  "joinGameLocked w e uid uname =
     (case gameKey w of
        None \<Rightarrow> (reject None True False, w)
      | Some g \<Rightarrow>
          if status g \<noteq> Waiting then (reject (Some JoinInProgress) False True, w)
          else if (case joinDeadline g of Some jd \<Rightarrow> jnow e > jd | None \<Rightarrow> False) then
            (reject (Some JoinPeriodEnded) False True, w)
          else if find (\<lambda>p. userId p = uid) (players g) \<noteq> None then
            (reject (Some AlreadyJoined) False True, w)
          else
            (case deductCredits w (jhook e) uid (entryAmount g) of
               ((False, balance), w1) \<Rightarrow> (reject (Some NotEnoughCredit) False True, w1)
             | ((True, balance), w1) \<Rightarrow>
                 (let g1 = g\<lparr>players := players g @ [newPlayer uid uname],
                             pot := pot g + entryAmount g\<rparr>
                  in ((accept (Joined uname))
                        \<lparr>playerCount := Some (length (players g1)), potOut := Some (pot g1),
                         newBalance := Some balance\<rparr>,
                      w1\<lparr>gameKey := Some g1\<rparr>))))"

text \<open>
  \<^verbatim>\<open>joinGame\<close> holds the join lock (5 attempts) around the body and releases it with its
  token in the \<^verbatim>\<open>finally\<close> block.
\<close>

definition joinGame :: "world \<Rightarrow> joinEnv \<Rightarrow> nat \<Rightarrow> string \<Rightarrow> reply \<times> world" where
  "joinGame w e uid uname =
     (case acquireLockWithRetry (locks w) joinLock (take 5 (jtokens e)) of
        (None, l) \<Rightarrow> (reject (Some ServerBusy) False True, w)
      | (Some token, l) \<Rightarrow>
          (let (r, w1) = joinGameLocked (w\<lparr>locks := l\<rparr>) e uid uname
           in (r, w1\<lparr>locks := releaseLock (locks w1) joinLock token\<rparr>)))"

text \<open>A sequence of serialized \<^verbatim>\<open>joinGame\<close> calls.\<close>

fun joinAll :: "world \<Rightarrow> (joinEnv \<times> nat \<times> string) list \<Rightarrow> world" where
  "joinAll w [] = w"
| "joinAll w ((e, uid, uname) # cs) = joinAll (snd (joinGame w e uid uname)) cs"

section \<open>Begin and draw\<close>

record playEnv =
  pnow :: int
  ptokens :: "string list"
  prnd :: "nat \<Rightarrow> nat"

datatype beginResult = Cancelled | Started nat

definition resetDraw :: "player \<Rightarrow> player" where
  "resetDraw p = p\<lparr>hasDrawn := False, currentCard := None\<rparr>"

definition beginGameBody :: "world \<Rightarrow> playEnv \<Rightarrow> beginResult option \<times> world" where
  "beginGameBody w e =
     (case gameKey w of
        None \<Rightarrow> (None, w)
      | Some g \<Rightarrow>
          if status g \<noteq> Waiting then (None, w)
          else if length (players g) < 2 then
            (Some Cancelled, cleanupRedisKeys (refundAll w (entryAmount g) (players g)))
          else
            (let w1 = initializeDeck w (prnd e);
                 g1 = g\<lparr>status := Playing, currentRound := 1, isRoundStarted := True,
                         players := map resetDraw (players g),
                         countdownEndsAt := Some (pnow e + COUNTDOWN_DELAY),
                         roundDeadline := Some (pnow e + COUNTDOWN_DELAY + DRAW_TIMEOUT)\<rparr>
             in (Some (Started (length (players g1))), w1\<lparr>gameKey := Some g1\<rparr>)))"

text \<open>
  \<^verbatim>\<open>beginGame\<close> asks for the join lock (5 attempts) and proceeds without it when it is
  taken; it releases only a lock it got.
\<close>

definition beginGame :: "world \<Rightarrow> playEnv \<Rightarrow> beginResult option \<times> world" where
  "beginGame w e =
     (case acquireLockWithRetry (locks w) joinLock (take 5 (ptokens e)) of
        (None, l) \<Rightarrow> beginGameBody w e
      | (Some token, l) \<Rightarrow>
          (let (r, w1) = beginGameBody (w\<lparr>locks := l\<rparr>) e
           in (r, w1\<lparr>locks := releaseLock (locks w1) joinLock token\<rparr>)))"

fun findIndex :: "('a \<Rightarrow> bool) \<Rightarrow> 'a list \<Rightarrow> nat option" where
  "findIndex P [] = None"
| "findIndex P (x # xs) = (if P x then Some 0 else map_option Suc (findIndex P xs))"

definition drawCardLocked :: "world \<Rightarrow> playEnv \<Rightarrow> nat \<Rightarrow> string \<Rightarrow> reply \<times> world" where
  "drawCardLocked w e uid uname =
     (case gameKey w of
        None \<Rightarrow> (reject None True False, w)
      | Some g \<Rightarrow>
          if status g \<noteq> Playing then (reject (Some NotInProgress) False False, w)
          else if truthy (countdownEndsAt g) \<and>
                  (case countdownEndsAt g of Some c \<Rightarrow> pnow e < c | None \<Rightarrow> False) then
            (reject (Some WaitCountdown) True False, w)
          else
            (case findIndex (\<lambda>p. userId p = uid \<and> \<not> isEliminated p) (players g) of
               None \<Rightarrow> (reject (Some NotInGame) False True, w)
             | Some playerIndex \<Rightarrow>
                 (let player = players g ! playerIndex
                  in if isTieBreaker g \<and> \<not> inTieBreaker player then
                       (reject (Some (OnlyTied uname)) False True, w)
                     else if hasDrawn player then
                       (reject (Some (AlreadyDrew uname)) False True, w)
                     else
                       (let (card, w1) = drawCardFromDeck w (prnd e);
                            g1 = g\<lparr>players := (players g)
                                   [playerIndex := player\<lparr>currentCard := card, hasDrawn := True\<rparr>]\<rparr>
                        in ((accept (Drew uname (case card of Some c \<Rightarrow> code c | None \<Rightarrow> ''?'')))
                              \<lparr>cardOut := card\<rparr>,
                            w1\<lparr>gameKey := Some g1\<rparr>)))))"

definition drawCardForPlayer :: "world \<Rightarrow> playEnv \<Rightarrow> nat \<Rightarrow> string \<Rightarrow> reply \<times> world" where
  "drawCardForPlayer w e uid uname =
     (case acquireLockWithRetry (locks w) drawLock (take 3 (ptokens e)) of
        (None, l) \<Rightarrow> (reject (Some Processing) True False, w)
      | (Some token, l) \<Rightarrow>
          (let (r, w1) = drawCardLocked (w\<lparr>locks := l\<rparr>) e uid uname
           in (r, w1\<lparr>locks := releaseLock (locks w1) drawLock token\<rparr>)))"

section \<open>Tally and finish\<close>

record finishInfo =
  eliminated :: "player option"
  winner :: "player option"
  winningsOut :: int
  houseFeeOut :: int
  potTotal :: int
  balanceOut :: int

datatype tallyResult =
    TallyError
  | Eliminated player int bool
  | Tie "player list" int
  | GameOver finishInfo

text \<open>
  Modelled from the spec: \<^verbatim>\<open>addMerchantIncome\<close> of \<^verbatim>\<open>utils/merchantTags\<close> is not among
  the sources; the merchant commission is an opaque ledger hook, kept here as an
  income account per merchant, apart from \<^verbatim>\<open>users.credits\<close>.
\<close>

definition addMerchantIncome :: "world \<Rightarrow> nat \<Rightarrow> int \<Rightarrow> world" where
  "addMerchantIncome w merchantId commission =
     w\<lparr>merchantIncome := (merchantIncome w)(merchantId := merchantIncome w merchantId + commission)\<rparr>"

text \<open>
  The commission step of \<^verbatim>\<open>finishGame\<close>: \<^verbatim>\<open>Math.floor(houseFee * 0.1)\<close> to the merchant of
  the starter, when the starter has an active tag.
\<close>

definition payCommission :: "world \<Rightarrow> game \<Rightarrow> int \<Rightarrow> world" where
  "payCommission w g fee =
     (case merchantTags w (startedBy g) of
        None \<Rightarrow> w
      | Some merchantId \<Rightarrow>
          if fee > 0 then
            (let commission = fee div 10
             in if commission > 0 then addMerchantIncome w merchantId commission else w)
          else w)"

definition finishGame :: "world \<Rightarrow> game \<Rightarrow> player list \<Rightarrow> player option \<Rightarrow> finishInfo \<times> world" where
  "finishGame w g remainingPlayers loser =
     (let fee = pot g * HOUSE_FEE_PERCENT div 100;
          win = pot g - fee
      in case remainingPlayers of
           [] \<Rightarrow>
             (\<lparr>eliminated = loser, winner = None, winningsOut = win, houseFeeOut = fee,
               potTotal = pot g, balanceOut = 0\<rparr>,
              cleanupRedisKeys w)
         | winnerP # rest \<Rightarrow>
             (let w1 = payCommission w g fee;
                  (creditResult, w2) = addCredits w1 (userId winnerP) win
              in (\<lparr>eliminated = loser, winner = Some winnerP, winningsOut = win,
                   houseFeeOut = fee, potTotal = pot g, balanceOut = snd creditResult\<rparr>,
                  cleanupRedisKeys w2)))"

definition cardValue :: "player \<Rightarrow> int" where
  "cardValue p = (case currentCard p of Some c \<Rightarrow> cvalue c | None \<Rightarrow> 0)"

text \<open>One pass of the loop that collects \<^verbatim>\<open>lowestHands\<close>.\<close>

fun lowestStep :: "player list \<Rightarrow> player \<Rightarrow> player list" where
  "lowestStep [] p = [p]"
| "lowestStep (l # ls) p =
     (let compareResult = cardValue p - cardValue l
      in if compareResult < 0 then [p]
         else if compareResult = 0 then (l # ls) @ [p]
         else l # ls)"

definition lowestHands :: "player list \<Rightarrow> player list" where
  "lowestHands currentHandsPlayers = foldl lowestStep [] currentHandsPlayers"

definition currentHandsPlayers :: "game \<Rightarrow> player list" where
  "currentHandsPlayers g =
     (if isTieBreaker g then
        filter (\<lambda>p. \<not> isEliminated p \<and> inTieBreaker p \<and> currentCard p \<noteq> None) (players g)
      else filter (\<lambda>p. \<not> isEliminated p \<and> currentCard p \<noteq> None) (players g))"

definition clearTie :: "player \<Rightarrow> player" where
  "clearTie p = p\<lparr>inTieBreaker := False\<rparr>"

definition eliminate :: "game \<Rightarrow> player \<Rightarrow> game" where
  "eliminate g loser =
     (let ps = (case findIndex (\<lambda>p. userId p = userId loser) (players g) of
                  None \<Rightarrow> players g
                | Some idx \<Rightarrow> (players g)[idx := (players g ! idx)\<lparr>isEliminated := True\<rparr>])
      in g\<lparr>players := map clearTie ps, isTieBreaker := False\<rparr>)"

definition nextRoundPlayer :: "player \<Rightarrow> player" where
  "nextRoundPlayer p = (if \<not> isEliminated p then resetDraw p else p)"

definition tiePlayer :: "nat list \<Rightarrow> player \<Rightarrow> player" where
  "tiePlayer tiedPlayerIds p =
     (if \<not> isEliminated p then
        (if userId p \<in> set tiedPlayerIds then
           p\<lparr>hasDrawn := False, currentCard := None, inTieBreaker := True\<rparr>
         else p\<lparr>inTieBreaker := False\<rparr>)
      else p)"

definition tallyRound :: "world \<Rightarrow> int \<Rightarrow> tallyResult option \<times> world" where
  "tallyRound w now =
     (case gameKey w of
        None \<Rightarrow> (None, w)
      | Some g \<Rightarrow>
          if currentHandsPlayers g = [] then (Some TallyError, w)
          else
            (case lowestHands (currentHandsPlayers g) of
               [] \<Rightarrow> (None, w)
             | [loser] \<Rightarrow>
                 (let g1 = eliminate g loser;
                      remainingPlayers = filter (\<lambda>p. \<not> isEliminated p) (players g1)
                  in if length remainingPlayers < 2 then
                       (let (info, w1) = finishGame w g1 remainingPlayers (Some loser)
                        in (Some (GameOver info), w1))
                     else
                       (let g2 = g1\<lparr>currentRound := currentRound g1 + 1,
                                    isRoundStarted := True,
                                    players := map nextRoundPlayer (players g1),
                                    countdownEndsAt := Some (now + COUNTDOWN_DELAY),
                                    roundDeadline := Some (now + COUNTDOWN_DELAY + DRAW_TIMEOUT),
                                    wasTieBreaker := False\<rparr>
                        in (Some (Eliminated loser (currentRound g2) (wasTieBreaker g1)),
                            w\<lparr>gameKey := Some g2\<rparr>)))
             | tied \<Rightarrow>
                 (let tiedPlayerIds = map userId tied;
                      g1 = g\<lparr>players := map (tiePlayer tiedPlayerIds) (players g),
                              isTieBreaker := True, wasTieBreaker := True,
                              currentRound := currentRound g + 1, isRoundStarted := True,
                              countdownEndsAt := Some (now + COUNTDOWN_DELAY),
                              roundDeadline := Some (now + COUNTDOWN_DELAY + DRAW_TIMEOUT)\<rparr>
                  in (Some (Tie tied (currentRound g1)), w\<lparr>gameKey := Some g1\<rparr>))))"

section \<open>Cancel, stop and reset\<close>

definition cancelByStarter :: "world \<Rightarrow> nat \<Rightarrow> string \<Rightarrow> reply \<times> world" where
  "cancelByStarter w uid uname =
     (case gameKey w of
        None \<Rightarrow> (reject None True False, w)
      | Some g \<Rightarrow>
          if status g \<noteq> Waiting then (reject (Some (CannotCancel uname)) False True, w)
          else if startedBy g \<noteq> uid then (reject (Some (OnlyStarter uname)) False True, w)
          else (accept (CancelledBy uname (length (players g)) (entryAmount g)),
                cleanupRedisKeys (refundAll w (entryAmount g) (players g))))"

definition stopGame :: "world \<Rightarrow> reply \<times> world" where
  "stopGame w =
     (case gameKey w of
        None \<Rightarrow> (reject (Some NoGameToStop) False False, w)
      | Some g \<Rightarrow>
          if status g = Playing then (reject (Some CannotStop) False False, w)
          else (accept Stopped, cleanupRedisKeys (refundAll w (entryAmount g) (players g))))"

text \<open>The loop of \<^verbatim>\<open>resetGame\<close>, with its guard \<^verbatim>\<open>if (!player.isEliminated)\<close>.\<close>

fun refundActive :: "world \<Rightarrow> int \<Rightarrow> player list \<Rightarrow> world" where
  "refundActive w amount [] = w"
| "refundActive w amount (p # ps) =
     refundActive (if \<not> isEliminated p then snd (addCredits w (userId p) amount) else w) amount ps"

definition resetGame :: "world \<Rightarrow> reply \<times> world" where
  "resetGame w =
     (case gameKey w of
        None \<Rightarrow> (reject (Some NoGameToReset) False False, w)
      | Some g \<Rightarrow>
          (accept (ResetDone (length (players g)) (entryAmount g)),
           clearDeck (clearTimer ((refundActive w (entryAmount g) (players g))\<lparr>gameKey := None\<rparr>))))"

section \<open>Notions of the specification and sample snapshots\<close>

text \<open>The balance of a user in \<^verbatim>\<open>users.credits\<close>; a missing row reads as \<open>0\<close>.\<close>

definition creditsOf :: "world \<Rightarrow> nat \<Rightarrow> int" where
  "creditsOf w uid = (case users w uid of Some b \<Rightarrow> b | None \<Rightarrow> 0)"

text \<open>
  The holders of the lowest card among a list of players, as the specification words
  it: those whose card value is at most the value of every card in the list.
\<close>

definition minimalHolders :: "player list \<Rightarrow> player list" where
  "minimalHolders ys = [q\<leftarrow>ys. \<forall>r\<in>set ys. cardValue q \<le> cardValue r]"

text \<open>
  Sample data: three users with 100 COINS each, a merchant-tag service that knows no
  tagged credits, and a game of entry 10 started by user 1.
\<close>

definition noTags :: tagHook where
  "noTags = \<lparr>getTaggedBalance = (\<lambda>u. 0),
             consumeForGame = (\<lambda>u a. \<lparr>consumed = False, usedTaggedCredits = 0, remainingAmount = a\<rparr>)\<rparr>"

text \<open>
  A merchant-tag service under which every user holds 4 tagged credits, and every bet
  consumes them and leaves the rest of the amount to \<^verbatim>\<open>users.credits\<close>.
\<close>

definition fourTagged :: tagHook where
  "fourTagged = \<lparr>getTaggedBalance = (\<lambda>u. 4),
                 consumeForGame = (\<lambda>u a. \<lparr>consumed = True, usedTaggedCredits = 4,
                                            remainingAmount = a - 4\<rparr>)\<rparr>"

definition demoWorld :: world where
  "demoWorld = \<lparr>users = [1 \<mapsto> 100, 2 \<mapsto> 100, 3 \<mapsto> 100], creditsCache = Map.empty,
                gameKey = None, deckKey = None, timerKey = None, locks = Map.empty,
                merchantTags = Map.empty, merchantIncome = (\<lambda>m. 0)\<rparr>"

definition demoStart :: startEnv where
  "demoStart = \<lparr>clock = 1000, isBigGame = False, hook = noTags, historyInsertThrows = False,
                dbGameId = Some 7, gameSet = SetOk, verify = GetOk, refundFails = False\<rparr>"

definition alice :: player where "alice = newPlayer 1 ''alice''"

definition bob :: player where "bob = newPlayer 2 ''bob''"

definition carol :: player where "carol = newPlayer 3 ''carol''"

definition demoGame :: "status \<Rightarrow> player list \<Rightarrow> game" where
  "demoGame st ps = (newGame demoStart 1 ''alice'' 10)
                      \<lparr>status := st, players := ps, pot := 10 * int (length ps)\<rparr>"

definition paidWorld :: "game \<Rightarrow> world" where
  "paidWorld g = demoWorld\<lparr>users := [1 \<mapsto> 90, 2 \<mapsto> 90, 3 \<mapsto> 90], gameKey := Some g\<rparr>"

definition out :: "player \<Rightarrow> player" where
  "out p = p\<lparr>isEliminated := True\<rparr>"

lemmas demo_defs = noTags_def demoWorld_def demoStart_def alice_def bob_def carol_def
  demoGame_def paidWorld_def out_def newGame_def newPlayer_def JOIN_TIMEOUT_def

text \<open>The two invariants of a stored snapshot that start and join maintain.\<close>

definition snapshotOk :: "world \<Rightarrow> bool" where
  "snapshotOk w =
     (case gameKey w of
        None \<Rightarrow> True
      | Some g \<Rightarrow> distinct (map userId (players g)) \<and>
                  pot g = entryAmount g * int (length (players g)))"

definition demoJoin :: joinEnv where
  "demoJoin = \<lparr>jnow = 2000, jtokens = [''9f3c5a7e01b2d4c6''], jhook = noTags\<rparr>"

text \<open>
  The guards of \<^verbatim>\<open>drawCardForPlayer\<close> as the specification lists them; the caller is the
  first player with the user id who is not eliminated.
\<close>

definition drawGuardFails :: "game \<Rightarrow> int \<Rightarrow> nat \<Rightarrow> bool" where
  "drawGuardFails g now uid =
     (status g \<noteq> Playing \<or>
      (case countdownEndsAt g of Some c \<Rightarrow> now < c | None \<Rightarrow> False) \<or>
      (case find (\<lambda>p. userId p = uid \<and> \<not> isEliminated p) (players g) of
         None \<Rightarrow> True
       | Some p \<Rightarrow> (isTieBreaker g \<and> \<not> inTieBreaker p) \<or> hasDrawn p))"

text \<open>The deck a draw pops from: the stored one, or a fresh one when it is missing or empty.\<close>

definition roomDeck :: "world \<Rightarrow> (nat \<Rightarrow> nat) \<Rightarrow> card list" where
  "roomDeck w rnd =
     (case deckKey w of None \<Rightarrow> generateDeck rnd | Some d \<Rightarrow> if d = [] then generateDeck rnd else d)"

definition demoPlay :: playEnv where
  "demoPlay = \<lparr>pnow = 5000, ptokens = [''4b1d9e00c7a2f583''], prnd = (\<lambda>i. 0)\<rparr>"

definition drawWorld :: "int option \<Rightarrow> world" where
  "drawWorld countdown =
     (paidWorld ((demoGame Playing [alice, bob])\<lparr>countdownEndsAt := countdown\<rparr>))
       \<lparr>deckKey := Some [mkCard CHR ''h'' 5, mkCard CHR ''s'' 9]\<rparr>"

text \<open>
  The players in scope of a round, as the specification words it: not eliminated, in
  the tie-breaker when there is one, and holding a card.
\<close>

definition inScope :: "game \<Rightarrow> player list" where
  "inScope g =
     filter (\<lambda>p. \<not> isEliminated p \<and> (isTieBreaker g \<longrightarrow> inTieBreaker p) \<and> currentCard p \<noteq> None)
       (players g)"

text \<open>The snapshot with exactly the player \<open>l\<close> marked eliminated and the tie state cleared.\<close>

definition markOut :: "game \<Rightarrow> player \<Rightarrow> game" where
  "markOut g l =
     g\<lparr>players := map (\<lambda>p. (if p = l then p\<lparr>isEliminated := True\<rparr> else p)\<lparr>inTieBreaker := False\<rparr>)
                     (players g),
       isTieBreaker := False\<rparr>"

text \<open>Sample rounds: a single lowest card, a tie of two, and the last elimination.\<close>

definition holding :: "player \<Rightarrow> char \<Rightarrow> int \<Rightarrow> player" where
  "holding p s v = p\<lparr>hasDrawn := True, currentCard := Some (mkCard s v)\<rparr>"

definition roundA :: game where
  "roundA = demoGame Playing [holding alice CHR ''h'' 5, holding bob CHR ''d'' 9, holding carol CHR ''s'' 13]"

definition roundB :: game where
  "roundB = demoGame Playing [holding alice CHR ''h'' 5, holding bob CHR ''d'' 5, holding carol CHR ''s'' 9]"

definition roundC :: game where
  "roundC = demoGame Playing [out alice, holding bob CHR ''c'' 4, holding carol CHR ''h'' 7]"

text \<open>
  What \<^verbatim>\<open>deductCredits\<close> takes from \<^verbatim>\<open>users.credits\<close> for an amount: the part that the
  tagged credits did not cover, and nothing when they covered all of it.
\<close>

definition takenFromCredits :: "tagHook \<Rightarrow> nat \<Rightarrow> int \<Rightarrow> int" where
  "takenFromCredits h uid amount =
     (if regularAmount h uid amount \<le> 0 then 0 else regularAmount h uid amount)"

text \<open>
  The entry of the participant \<open>p\<close> was deducted by \<^verbatim>\<open>deductCredits\<close> in the world \<open>w0\<close>,
  where \<open>p\<close> held the pre-start balance \<open>b0\<close>, and the deduction left the balance \<open>b\<close>.
\<close>

definition deducted :: "world \<Rightarrow> tagHook \<Rightarrow> game \<Rightarrow> player \<Rightarrow> int \<Rightarrow> int \<Rightarrow> bool" where
  "deducted w0 h g p b0 b =
     (users w0 (userId p) = Some b0 \<and>
      fst (fst (deductCredits w0 h (userId p) (entryAmount g))) \<and>
      users (snd (deductCredits w0 h (userId p) (entryAmount g))) (userId p) = Some b)"

text \<open>The waiting game of alice and bob after bob paid 4 of his entry with tagged credits.\<close>

definition taggedWorld :: world where
  "taggedWorld = (paidWorld (demoGame Waiting [alice, bob]))\<lparr>users := [1 \<mapsto> 90, 2 \<mapsto> 94, 3 \<mapsto> 100]\<rparr>"

section \<open>Auxiliary lemmas\<close>

lemma users_addCredits:
  "users (snd (addCredits w uid a)) = (users w)(uid := map_option (\<lambda>b. b + a) (users w uid))"
  by (auto simp: addCredits_def split: option.splits)

lemma users_refundAll:
  "distinct (map userId ps) \<Longrightarrow>
   users (refundAll w a ps) u =
     (if u \<in> userId ` set ps then map_option (\<lambda>b. b + a) (users w u) else users w u)"
proof (induction ps arbitrary: w)
  case Nil
  then show ?case by simp
next
  case (Cons p ps)
  then show ?case by (auto simp: users_addCredits)
qed

lemma users_refundActive:
  "distinct (map userId ps) \<Longrightarrow>
   users (refundActive w a ps) u =
     (if u \<in> userId ` {p \<in> set ps. \<not> isEliminated p} then map_option (\<lambda>b. b + a) (users w u) else users w u)"
proof (induction ps arbitrary: w)
  case Nil
  then show ?case by simp
next
  case (Cons p ps)
  then show ?case by (auto simp: users_addCredits)
qed

lemma users_cleanupRedisKeys: "users (cleanupRedisKeys w) = users w"
  by (simp add: cleanupRedisKeys_def)

lemma users_payCommission: "users (payCommission w g fee) = users w"
  by (simp add: payCommission_def addMerchantIncome_def Let_def split: option.splits)

lemma users_beginGame_cancel:
  assumes "gameKey w = Some g" "status g = Waiting" "length (players g) < 2"
  shows "fst (beginGame w e) = Some Cancelled"
    and "users (snd (beginGame w e)) = users (refundAll w (entryAmount g) (players g))"
proof -
  have body: "\<And>l. beginGameBody (w\<lparr>locks := l\<rparr>) e =
      (Some Cancelled, cleanupRedisKeys (refundAll (w\<lparr>locks := l\<rparr>) (entryAmount g) (players g)))"
    using assms by (simp add: beginGameBody_def)
  have body0: "beginGameBody w e =
      (Some Cancelled, cleanupRedisKeys (refundAll w (entryAmount g) (players g)))"
    using assms by (simp add: beginGameBody_def)
  have same: "\<And>l u. users (refundAll (w\<lparr>locks := l\<rparr>) (entryAmount g) (players g)) u =
      users (refundAll w (entryAmount g) (players g)) u"
  proof -
    fix l u
    from assms(3) have "distinct (map userId (players g))"
      by (cases "players g") (auto simp: less_Suc_eq)
    then show "users (refundAll (w\<lparr>locks := l\<rparr>) (entryAmount g) (players g)) u =
      users (refundAll w (entryAmount g) (players g)) u"
      by (simp add: users_refundAll)
  qed
  show "fst (beginGame w e) = Some Cancelled"
    by (cases "acquireLockWithRetry (locks w) joinLock (take 5 (ptokens e))")
       (auto simp: beginGame_def body body0 split: option.splits)
  show "users (snd (beginGame w e)) = users (refundAll w (entryAmount g) (players g))"
    by (cases "acquireLockWithRetry (locks w) joinLock (take 5 (ptokens e))")
       (auto simp: beginGame_def body body0 users_cleanupRedisKeys same split: option.splits)
qed

lemma length_shuffleFrom: "length (shuffleFrom rnd n xs) = length xs"
  by (induction n arbitrary: xs) (auto simp: Let_def)

lemma length_orderedDeck:
  "length (concat (map (\<lambda>s. map (mkCard s) CARD_VALUES) CARD_SUITS)) = 52"
  by (simp add: CARD_SUITS_def CARD_VALUES_def)

lemma length_generateDeck: "length (generateDeck rnd) = 52"
  unfolding generateDeck_def shuffleDeck_def length_shuffleFrom by (rule length_orderedDeck)

lemma ex_lowest:
  "ys \<noteq> [] \<Longrightarrow> \<exists>q\<in>set ys. \<forall>r\<in>set ys. cardValue q \<le> cardValue r"
proof (induction ys)
  case Nil
  then show ?case by simp
next
  case (Cons y ys)
  show ?case
  proof (cases "ys = []")
    case True
    then show ?thesis by simp
  next
    case False
    with Cons.IH obtain q where q: "q \<in> set ys" "\<forall>r\<in>set ys. cardValue q \<le> cardValue r"
      by blast
    show ?thesis
    proof (cases "cardValue y \<le> cardValue q")
      case True
      with q have "\<forall>r\<in>set (y # ys). cardValue y \<le> cardValue r" by auto
      then show ?thesis by auto
    next
      case False
      with q have "\<forall>r\<in>set (y # ys). cardValue q \<le> cardValue r" by auto
      with q(1) show ?thesis by auto
    qed
  qed
qed

lemma minimalHolders_snoc:
  "minimalHolders (ys @ [p]) =
     [q\<leftarrow>ys. (\<forall>r\<in>set ys. cardValue q \<le> cardValue r) \<and> cardValue q \<le> cardValue p] @
     (if \<forall>r\<in>set ys. cardValue p \<le> cardValue r then [p] else [])"
  by (auto simp: minimalHolders_def ball_Un intro: filter_cong)

lemma minimalHolders_Nil_iff: "minimalHolders ys = [] \<longleftrightarrow> ys = []"
proof
  assume m: "minimalHolders ys = []"
  show "ys = []"
  proof (rule ccontr)
    assume "ys \<noteq> []"
    from ex_lowest [OF this] obtain q where "q \<in> set ys" "\<forall>r\<in>set ys. cardValue q \<le> cardValue r"
      by blast
    then have "q \<in> set (minimalHolders ys)" by (simp add: minimalHolders_def)
    with m show False by simp
  qed
next
  assume "ys = []"
  then show "minimalHolders ys = []" by (simp add: minimalHolders_def)
qed

lemma lowestStep_minimal: "lowestStep (minimalHolders ys) p = minimalHolders (ys @ [p])"
proof (cases "minimalHolders ys")
  case Nil
  then have "ys = []" by (simp add: minimalHolders_Nil_iff)
  then show ?thesis by (simp add: minimalHolders_def)
next
  case (Cons l ls)
  then have "l \<in> set (minimalHolders ys)" by simp
  then have l: "l \<in> set ys" "\<forall>r\<in>set ys. cardValue l \<le> cardValue r"
    by (simp_all add: minimalHolders_def)
  have step: "lowestStep (minimalHolders ys) p =
      (if cardValue p < cardValue l then [p]
       else if cardValue p = cardValue l then minimalHolders ys @ [p] else minimalHolders ys)"
    by (simp add: Cons)
  consider (lt) "cardValue p < cardValue l" | (eq) "cardValue p = cardValue l"
    | (gt) "cardValue l < cardValue p" by linarith
  then show ?thesis
  proof cases
    case lt
    have "\<And>q. q \<in> set ys \<Longrightarrow> \<not> cardValue q \<le> cardValue p"
      using l(2) lt by fastforce
    then have a: "[q\<leftarrow>ys. (\<forall>r\<in>set ys. cardValue q \<le> cardValue r) \<and> cardValue q \<le> cardValue p] = []"
      by (simp add: filter_empty_conv)
    have b: "\<forall>r\<in>set ys. cardValue p \<le> cardValue r"
      using l(2) lt by fastforce
    show ?thesis unfolding minimalHolders_snoc step using a b lt by simp
  next
    case eq
    have "\<And>q. q \<in> set ys \<Longrightarrow>
        ((\<forall>r\<in>set ys. cardValue q \<le> cardValue r) \<and> cardValue q \<le> cardValue p) =
        (\<forall>r\<in>set ys. cardValue q \<le> cardValue r)"
      using l(1) eq by fastforce
    then have a: "[q\<leftarrow>ys. (\<forall>r\<in>set ys. cardValue q \<le> cardValue r) \<and> cardValue q \<le> cardValue p] = minimalHolders ys"
      unfolding minimalHolders_def by (rule filter_cong [OF refl])
    have b: "\<forall>r\<in>set ys. cardValue p \<le> cardValue r"
      using l(2) eq by simp
    show ?thesis unfolding minimalHolders_snoc step using a b eq by simp
  next
    case gt
    have "\<And>q. q \<in> set ys \<Longrightarrow>
        ((\<forall>r\<in>set ys. cardValue q \<le> cardValue r) \<and> cardValue q \<le> cardValue p) =
        (\<forall>r\<in>set ys. cardValue q \<le> cardValue r)"
      using l(1) gt by fastforce
    then have a: "[q\<leftarrow>ys. (\<forall>r\<in>set ys. cardValue q \<le> cardValue r) \<and> cardValue q \<le> cardValue p] = minimalHolders ys"
      unfolding minimalHolders_def by (rule filter_cong [OF refl])
    have b: "\<not> (\<forall>r\<in>set ys. cardValue p \<le> cardValue r)"
      using l(1) gt by fastforce
    show ?thesis unfolding minimalHolders_snoc step using a b gt by simp
  qed
qed

lemma foldl_lowestStep:
  "foldl lowestStep (minimalHolders ys) xs = minimalHolders (ys @ xs)"
proof (induction xs arbitrary: ys)
  case Nil
  then show ?case by simp
next
  case (Cons x xs)
  have "foldl lowestStep (minimalHolders ys) (x # xs) = foldl lowestStep (minimalHolders (ys @ [x])) xs"
    by (simp only: foldl_Cons lowestStep_minimal)
  also have "\<dots> = minimalHolders ((ys @ [x]) @ xs)"
    by (rule Cons.IH)
  finally show ?case by simp
qed

lemma lowestHands_minimal: "lowestHands xs = minimalHolders xs"
proof -
  have "minimalHolders [] = []" by (simp add: minimalHolders_def)
  with foldl_lowestStep [of "[]" xs] show ?thesis by (simp add: lowestHands_def)
qed

lemma sum_single:
  "distinct (map f xs) \<Longrightarrow> x \<in> set xs \<Longrightarrow>
   (\<Sum>p\<leftarrow>xs. if f p = f x then a else (0::int)) = a"
proof (induction xs)
  case Nil
  then show ?case by simp
next
  case (Cons y ys)
  show ?case
  proof (cases "y = x")
    case True
    from Cons.prems True have "f x \<notin> f ` set ys" by simp
    then have "\<And>p. p \<in> set ys \<Longrightarrow> f p \<noteq> f x" by (metis imageI)
    then have "(\<Sum>p\<leftarrow>ys. if f p = f x then a else 0) = (\<Sum>p\<leftarrow>ys. 0)"
      by (intro arg_cong [where f = sum_list] map_cong) auto
    with True show ?thesis by simp
  next
    case False
    with Cons.prems have "x \<in> set ys" "f y \<noteq> f x" "distinct (map f ys)" by auto
    with Cons.IH show ?thesis by simp
  qed
qed

lemma acquireLockWithRetry_cases:
  "acquireLockWithRetry s k ts = (r, s') \<Longrightarrow>
   (r = None \<and> s' = s) \<or> (\<exists>t. r = Some t \<and> s k = None \<and> s' = s(k \<mapsto> t))"
  by (induction ts) (auto simp: acquireLock_def split: if_splits)

lemma release_after_acquire:
  "s k = None \<Longrightarrow> releaseLock (s(k \<mapsto> t)) k t = s"
  by (auto simp: releaseLock_def)

lemma gameKey_deductCredits: "gameKey (snd (deductCredits w h uid a)) = gameKey w"
  by (auto simp: deductCredits_def getUserCredits_def Let_def split: option.splits prod.splits)

lemma joinGameLocked_cases:
  "joinGameLocked w e uid uname = (r, w') \<Longrightarrow>
   (\<not> success r \<and> gameKey w' = gameKey w) \<or>
   (success r \<and> (\<exists>g. gameKey w = Some g \<and> uid \<notin> userId ` set (players g) \<and>
      gameKey w' = Some (g\<lparr>players := players g @ [newPlayer uid uname],
                            pot := pot g + entryAmount g\<rparr>)))"
proof (cases "gameKey w")
  case None
  then show "joinGameLocked w e uid uname = (r, w') \<Longrightarrow> ?thesis"
    by (auto simp: joinGameLocked_def reject_def)
next
  case (Some g)
  assume run: "joinGameLocked w e uid uname = (r, w')"
  obtain ok bal wd where d: "deductCredits w (jhook e) uid (entryAmount g) = ((ok, bal), wd)"
    by (metis prod.exhaust)
  have gk: "gameKey wd = gameKey w"
    using gameKey_deductCredits [of w "jhook e" uid "entryAmount g"] d by simp
  have nf: "find (\<lambda>p. userId p = uid) (players g) = None \<Longrightarrow> uid \<notin> userId ` set (players g)"
    by (auto simp: find_None_iff)
  from run Some d gk nf show ?thesis
    by (auto simp: joinGameLocked_def reject_def accept_def Let_def split: if_splits bool.splits)
qed

lemma joinGame_cases:
  "joinGame w e uid uname = (r, w') \<Longrightarrow>
   (\<not> success r \<and> gameKey w' = gameKey w) \<or>
   (success r \<and> (\<exists>g. gameKey w = Some g \<and> uid \<notin> userId ` set (players g) \<and>
      gameKey w' = Some (g\<lparr>players := players g @ [newPlayer uid uname],
                            pot := pot g + entryAmount g\<rparr>)))"
proof -
  assume run: "joinGame w e uid uname = (r, w')"
  obtain tk l where a: "acquireLockWithRetry (locks w) joinLock (take 5 (jtokens e)) = (tk, l)"
    by (metis prod.exhaust)
  show ?thesis
  proof (cases tk)
    case None
    with run a show ?thesis by (auto simp: joinGame_def reject_def)
  next
    case (Some token)
    obtain r1 w1 where b: "joinGameLocked (w\<lparr>locks := l\<rparr>) e uid uname = (r1, w1)"
      by (metis prod.exhaust)
    from run a Some b have "r = r1" "gameKey w' = gameKey w1"
      by (auto simp: joinGame_def)
    with joinGameLocked_cases [OF b] show ?thesis by simp
  qed
qed

lemma snapshotOk_joinGame: "snapshotOk w \<Longrightarrow> snapshotOk (snd (joinGame w e uid uname))"
proof -
  assume ok: "snapshotOk w"
  obtain r w' where run: "joinGame w e uid uname = (r, w')" by (metis prod.exhaust)
  from joinGame_cases [OF run] ok have "snapshotOk w'"
    by (auto simp: snapshotOk_def newPlayer_def algebra_simps split: option.splits)
  with run show ?thesis by simp
qed

lemma snapshotOk_joinAll: "snapshotOk w \<Longrightarrow> snapshotOk (joinAll w calls)"
proof (induction calls arbitrary: w)
  case Nil
  then show ?case by simp
next
  case (Cons c cs)
  obtain e uid uname where c: "c = (e, uid, uname)" by (metis prod.exhaust)
  from Cons.prems have "snapshotOk (snd (joinGame w e uid uname))" by (rule snapshotOk_joinGame)
  from Cons.IH [OF this] c show ?case by simp
qed

lemma createGame_success:
  "success (fst (createGame w e uid uname entry bal)) \<Longrightarrow>
   gameKey (snd (createGame w e uid uname entry bal)) = Some (newGame e uid uname entry)"
  by (auto simp: createGame_def rollback_def refundStarter_def reject_def accept_def Let_def
           split: if_splits setOutcome.splits getOutcome.splits)

lemma startGameLocked_success:
  "success (fst (startGameLocked w e uid uname amount)) \<Longrightarrow>
   \<exists>entry. gameKey (snd (startGameLocked w e uid uname amount)) = Some (newGame e uid uname entry)"
proof -
  assume s: "success (fst (startGameLocked w e uid uname amount))"
  obtain st w1 where a: "checkAndCleanupStaleGame w (clock e) = (st, w1)" by (metis prod.exhaust)
  obtain ro w2 where b: "clearExisting w1 (clock e) = (ro, w2)" by (metis prod.exhaust)
  define minEntry where "minEntry = (if isBigGame e then MIN_ENTRY_BIG_GAME else MIN_ENTRY)"
  define requested where "requested = requestedAmount amount minEntry"
  obtain ok bal w3 where d: "deductCredits w2 (hook e) uid requested = ((ok, bal), w3)"
    by (metis prod.exhaust)
  have ro: "ro = None"
  proof (cases ro)
    case (Some r)
    with b have "r = reject (Some AlreadyInProgress) False True"
      by (auto simp: clearExisting_def split: option.splits if_splits)
    with s a b Some show ?thesis by (simp add: startGameLocked_def reject_def)
  qed simp
  from s a b ro d have "startGameLocked w e uid uname amount = createGame w3 e uid uname requested bal"
    by (auto simp: startGameLocked_def Let_def reject_def minEntry_def requested_def
             split: if_splits bool.splits)
  with s createGame_success [of w3 e uid uname requested bal] show ?thesis by auto
qed

lemma startGame_success:
  "success (fst (startGame w e uid uname amount)) \<Longrightarrow>
   \<exists>entry. gameKey (snd (startGame w e uid uname amount)) = Some (newGame e uid uname entry)"
proof -
  assume s: "success (fst (startGame w e uid uname amount))"
  then have free: "locks w startLock = None"
    by (auto simp: startGame_def reject_def split: if_splits)
  obtain r w1 where a: "startGameLocked (w\<lparr>locks := (locks w)(startLock \<mapsto> ''1'')\<rparr>) e uid uname amount = (r, w1)"
    by (metis prod.exhaust)
  from s free a have "success (fst (startGameLocked (w\<lparr>locks := (locks w)(startLock \<mapsto> ''1'')\<rparr>) e uid uname amount))"
    by (simp add: startGame_def)
  from startGameLocked_success [OF this] a free show ?thesis
    by (auto simp: startGame_def)
qed

lemma joinGame_duplicate:
  assumes "gameKey w = Some g" "uid \<in> userId ` set (players g)"
  shows "\<not> success (fst (joinGame w e uid uname)) \<and> snd (joinGame w e uid uname) = w"
proof -
  obtain tk l where a: "acquireLockWithRetry (locks w) joinLock (take 5 (jtokens e)) = (tk, l)"
    by (metis prod.exhaust)
  from assms(2) have f: "find (\<lambda>p. userId p = uid) (players g) \<noteq> None"
    by (auto simp: find_None_iff)
  show ?thesis
  proof (cases tk)
    case None
    with a show ?thesis by (simp add: joinGame_def reject_def)
  next
    case (Some token)
    with acquireLockWithRetry_cases [OF a]
    have free: "locks w joinLock = None" and l: "l = (locks w)(joinLock \<mapsto> token)" by auto
    have "\<exists>m. joinGameLocked (w\<lparr>locks := l\<rparr>) e uid uname = (reject m False True, w\<lparr>locks := l\<rparr>)"
      using assms(1) f by (auto simp: joinGameLocked_def)
    then obtain m where b: "joinGameLocked (w\<lparr>locks := l\<rparr>) e uid uname = (reject m False True, w\<lparr>locks := l\<rparr>)"
      by blast
    have "releaseLock l joinLock token = locks w"
      unfolding l using free by (rule release_after_acquire)
    with a Some b show ?thesis by (simp add: joinGame_def reject_def)
  qed
qed

lemmas start_defs = startGame_def startGameLocked_def checkAndCleanupStaleGame_def
  clearExisting_def requestedAmount_def deductCredits_def regularAmount_def getUserCredits_def
  createGame_def rollback_def refundStarter_def addCredits_def accept_def reject_def
  MIN_ENTRY_def MAX_ENTRY_def
  MIN_ENTRY_BIG_GAME_def Let_def

lemmas join_defs = joinGame_def joinGameLocked_def acquireLock_def releaseLock_def
  deductCredits_def regularAmount_def getUserCredits_def accept_def reject_def Let_def

lemma demo_start:
  "startGame demoWorld demoStart 1 ''alice'' (Some 10) =
     ((accept (StartedBy ''alice'' 10))\<lparr>gameId := Some 7, newBalance := Some 90\<rparr>,
      demoWorld\<lparr>users := [1 \<mapsto> 90, 2 \<mapsto> 100, 3 \<mapsto> 100], creditsCache := [1 \<mapsto> 90],
                gameKey := Some (newGame demoStart 1 ''alice'' 10)\<rparr>)"
  by (simp add: start_defs demo_defs fun_upd_twist)

lemma demo_join:
  "joinGame (paidWorld (demoGame Waiting [alice, bob])) demoJoin 3 ''carol'' =
     ((accept (Joined ''carol''))\<lparr>playerCount := Some 3, potOut := Some 30, newBalance := Some 80\<rparr>,
      (paidWorld (demoGame Waiting [alice, bob, carol]))
        \<lparr>users := [1 \<mapsto> 90, 2 \<mapsto> 90, 3 \<mapsto> 80], creditsCache := [3 \<mapsto> 80]\<rparr>)"
  by (simp add: join_defs demo_defs demoJoin_def joinLock_def fun_upd_twist)

lemma startGame_negative_rejected:
  assumes "locks w startLock = None" "gameKey w = None" "n < 0"
  shows "startGame w e uid uname (Some n) =
           (reject (Some (MinimalCoins (if isBigGame e then MIN_ENTRY_BIG_GAME else MIN_ENTRY)))
              False True, w)"
proof -
  have "(locks w)(startLock := None) = locks w"
    using assms(1) by (simp add: fun_upd_idem)
  with assms show ?thesis
    by (simp add: startGame_def startGameLocked_def checkAndCleanupStaleGame_def clearExisting_def
        requestedAmount_def MIN_ENTRY_def MIN_ENTRY_BIG_GAME_def reject_def)
qed


lemma users_deductCredits:
  assumes "users w uid = Some b" "fst (fst (deductCredits w h uid a))"
  shows "users (snd (deductCredits w h uid a)) =
           (users w)(uid \<mapsto> b - (if regularAmount h uid a \<le> 0 then 0 else regularAmount h uid a))"
  using assms
  by (auto simp: deductCredits_def getUserCredits_def Let_def split: option.splits prod.splits if_splits)


lemma findIndex_find: "find P xs = map_option (\<lambda>i. xs ! i) (findIndex P xs)"
  by (induction xs) (auto simp: option.map_comp comp_def)

lemma findIndex_less: "findIndex P xs = Some i \<Longrightarrow> i < length xs"
  by (induction xs arbitrary: i) (auto split: if_splits)

lemma roomDeck_nonempty: "roomDeck w rnd \<noteq> []"
proof -
  have "generateDeck rnd \<noteq> []" using length_generateDeck [of rnd] by auto
  then show ?thesis by (auto simp: roomDeck_def split: option.splits)
qed

lemma drawCardFromDeck_roomDeck:
  "drawCardFromDeck w rnd =
     (Some (last (roomDeck w rnd)), w\<lparr>deckKey := Some (butlast (roomDeck w rnd))\<rparr>)"
  using roomDeck_nonempty [of w rnd]
  by (simp add: drawCardFromDeck_def roomDeck_def Let_def)

lemma drawCardLocked_reject:
  assumes "gameKey w = Some g" "0 \<le> pnow e" "drawGuardFails g (pnow e) uid"
  shows "\<not> success (fst (drawCardLocked w e uid uname)) \<and> snd (drawCardLocked w e uid uname) = w"
  using assms
  by (auto simp: drawCardLocked_def drawGuardFails_def findIndex_find reject_def truthy_def Let_def
           split: option.splits)

lemma drawCardLocked_silent:
  assumes "gameKey w = Some g" "0 \<le> pnow e" "status g = Playing"
      and "case countdownEndsAt g of Some c \<Rightarrow> pnow e < c | None \<Rightarrow> False"
  shows "fst (drawCardLocked w e uid uname) = reject (Some WaitCountdown) True False"
  using assms
  by (auto simp: drawCardLocked_def truthy_def split: option.splits)

lemma drawCardLocked_accept:
  assumes "gameKey w = Some g" "\<not> drawGuardFails g (pnow e) uid"
  shows "\<exists>i. findIndex (\<lambda>p. userId p = uid \<and> \<not> isEliminated p) (players g) = Some i \<and>
           success (fst (drawCardLocked w e uid uname)) \<and>
           cardOut (fst (drawCardLocked w e uid uname)) = Some (last (roomDeck w (prnd e))) \<and>
           snd (drawCardLocked w e uid uname) =
             w\<lparr>deckKey := Some (butlast (roomDeck w (prnd e))),
               gameKey := Some (g\<lparr>players := (players g)
                  [i := (players g ! i)\<lparr>currentCard := Some (last (roomDeck w (prnd e))),
                                         hasDrawn := True\<rparr>]\<rparr>)\<rparr>"
  using assms
  by (auto simp: drawCardLocked_def drawGuardFails_def findIndex_find drawCardFromDeck_roomDeck
                 accept_def truthy_def Let_def
           split: option.splits)

lemma roomDeck_locks: "roomDeck (w\<lparr>locks := l\<rparr>) rnd = roomDeck w rnd"
  by (simp add: roomDeck_def)

lemma drawCardForPlayer_locked:
  assumes "locks w drawLock = None" "ptokens e \<noteq> []"
  shows "\<exists>t. drawCardForPlayer w e uid uname =
           (fst (drawCardLocked (w\<lparr>locks := (locks w)(drawLock \<mapsto> t)\<rparr>) e uid uname),
            (snd (drawCardLocked (w\<lparr>locks := (locks w)(drawLock \<mapsto> t)\<rparr>) e uid uname))
              \<lparr>locks := releaseLock
                 (locks (snd (drawCardLocked (w\<lparr>locks := (locks w)(drawLock \<mapsto> t)\<rparr>) e uid uname)))
                 drawLock t\<rparr>)"
proof -
  from assms(2) obtain t ts where "take 3 (ptokens e) = t # ts"
    by (cases "ptokens e") auto
  with assms(1) have "acquireLockWithRetry (locks w) drawLock (take 3 (ptokens e)) =
      (Some t, (locks w)(drawLock \<mapsto> t))"
    by (simp add: acquireLock_def)
  then show ?thesis by (auto simp: drawCardForPlayer_def split_beta)
qed

lemma currentHandsPlayers_inScope: "currentHandsPlayers g = inScope g"
  by (simp add: currentHandsPlayers_def inScope_def)

lemma set_minimalHolders: "set (minimalHolders xs) \<subseteq> set xs"
  by (auto simp: minimalHolders_def)

lemma set_inScope: "set (inScope g) \<subseteq> set (players g)"
  by (auto simp: inScope_def)

lemma inScope_active: "p \<in> set (inScope g) \<Longrightarrow> \<not> isEliminated p"
  by (simp add: inScope_def)

lemma list_update_as_map:
  assumes "distinct xs" "i < length xs"
  shows "xs[i := f (xs ! i)] = map (\<lambda>p. if p = xs ! i then f p else p) xs"
proof (rule nth_equalityI)
  show "length (xs[i := f (xs ! i)]) = length (map (\<lambda>p. if p = xs ! i then f p else p) xs)"
    by simp
next
  fix j
  assume "j < length (xs[i := f (xs ! i)])"
  then have j: "j < length xs" by simp
  with assms have "(xs ! j = xs ! i) = (j = i)"
    by (simp add: nth_eq_iff_index_eq)
  with j assms(2) show "xs[i := f (xs ! i)] ! j = map (\<lambda>p. if p = xs ! i then f p else p) xs ! j"
    by (auto simp: nth_list_update)
qed

lemma findIndex_by_id:
  assumes "distinct (map userId xs)" "l \<in> set xs"
  shows "\<exists>i. findIndex (\<lambda>p. userId p = userId l) xs = Some i \<and> i < length xs \<and> xs ! i = l"
  using assms
proof (induction xs)
  case Nil
  then show ?case by simp
next
  case (Cons x xs)
  show ?case
  proof (cases "userId x = userId l")
    case True
    with Cons.prems have "x = l" by force
    with True show ?thesis by simp
  next
    case False
    with Cons.prems have "l \<in> set xs" "distinct (map userId xs)" by auto
    with Cons.IH obtain i where "findIndex (\<lambda>p. userId p = userId l) xs = Some i" "i < length xs" "xs ! i = l"
      by blast
    with False show ?thesis by simp
  qed
qed

lemma eliminate_markOut:
  assumes "distinct (map userId (players g))" "l \<in> set (players g)"
  shows "eliminate g l = markOut g l"
proof -
  from findIndex_by_id [OF assms] obtain i where
    i: "findIndex (\<lambda>p. userId p = userId l) (players g) = Some i" "i < length (players g)"
       "players g ! i = l"
    by blast
  from assms(1) have d: "distinct (players g)" by (simp add: distinct_map)
  have "(players g)[i := (players g ! i)\<lparr>isEliminated := True\<rparr>] =
        map (\<lambda>p. if p = players g ! i then p\<lparr>isEliminated := True\<rparr> else p) (players g)"
    using d i(2) by (rule list_update_as_map)
  with i show ?thesis
    by (simp add: eliminate_def markOut_def clearTie_def comp_def)
qed

lemma tally_single:
  assumes "gameKey w = Some g" "distinct (map userId (players g))" "inScope g \<noteq> []"
      and "minimalHolders (inScope g) = [l]"
  shows "(length (filter (\<lambda>p. \<not> isEliminated p) (players (markOut g l))) < 2 \<longrightarrow>
            tallyRound w now =
              (Some (GameOver (fst (finishGame w (markOut g l)
                  (filter (\<lambda>p. \<not> isEliminated p) (players (markOut g l))) (Some l)))),
               snd (finishGame w (markOut g l)
                  (filter (\<lambda>p. \<not> isEliminated p) (players (markOut g l))) (Some l)))) \<and>
         (2 \<le> length (filter (\<lambda>p. \<not> isEliminated p) (players (markOut g l))) \<longrightarrow>
            tallyRound w now =
              (Some (Eliminated l (currentRound g + 1) (wasTieBreaker g)),
               w\<lparr>gameKey := Some ((markOut g l)
                  \<lparr>currentRound := currentRound g + 1, isRoundStarted := True,
                   players := map (\<lambda>p. if isEliminated p then p
                                         else p\<lparr>hasDrawn := False, currentCard := None\<rparr>)
                                 (players (markOut g l)),
                   countdownEndsAt := Some (now + COUNTDOWN_DELAY),
                   roundDeadline := Some (now + COUNTDOWN_DELAY + DRAW_TIMEOUT),
                   wasTieBreaker := False\<rparr>)\<rparr>))"
proof -
  have "l \<in> set (minimalHolders (inScope g))" using assms(4) by simp
  with set_minimalHolders set_inScope have "l \<in> set (players g)" by blast
  with assms(2) have e: "eliminate g l = markOut g l" by (rule eliminate_markOut)
  have low: "lowestHands (currentHandsPlayers g) = [l]"
    by (simp add: lowestHands_minimal currentHandsPlayers_inScope assms(4))
  have cur: "currentHandsPlayers g \<noteq> []"
    by (simp add: currentHandsPlayers_inScope assms(3))
  have nr: "nextRoundPlayer = (\<lambda>p. if isEliminated p then p
                                         else p\<lparr>hasDrawn := False, currentCard := None\<rparr>)"
    by (auto simp: nextRoundPlayer_def resetDraw_def fun_eq_iff)
  have rw: "currentRound (markOut g l) = currentRound g" "wasTieBreaker (markOut g l) = wasTieBreaker g"
    by (simp_all add: markOut_def)
  show ?thesis
    using assms(1) low cur
    by (simp add: tallyRound_def e nr rw Let_def split_beta del: One_nat_def)
qed

lemma tally_tie:
  assumes "gameKey w = Some g" "distinct (map userId (players g))" "inScope g \<noteq> []"
      and "2 \<le> length (minimalHolders (inScope g))"
  shows "tallyRound w now =
           (Some (Tie (minimalHolders (inScope g)) (currentRound g + 1)),
            w\<lparr>gameKey := Some (g
               \<lparr>players := map (\<lambda>p. if p \<in> set (minimalHolders (inScope g))
                                     then p\<lparr>hasDrawn := False, currentCard := None, inTieBreaker := True\<rparr>
                                     else if isEliminated p then p
                                     else p\<lparr>inTieBreaker := False\<rparr>)
                              (players g),
                isTieBreaker := True, wasTieBreaker := True,
                currentRound := currentRound g + 1, isRoundStarted := True,
                countdownEndsAt := Some (now + COUNTDOWN_DELAY),
                roundDeadline := Some (now + COUNTDOWN_DELAY + DRAW_TIMEOUT)\<rparr>)\<rparr>)"
proof -
  define L where "L = minimalHolders (inScope g)"
  have sub: "set L \<subseteq> set (players g)"
    unfolding L_def using set_minimalHolders set_inScope by blast
  have act: "\<And>p. p \<in> set L \<Longrightarrow> \<not> isEliminated p"
    unfolding L_def using set_minimalHolders inScope_active by blast
  have inj: "inj_on userId (set (players g))"
    using assms(2) by (simp add: distinct_map)
  have mem: "\<And>p. p \<in> set (players g) \<Longrightarrow> (userId p \<in> set (map userId L)) = (p \<in> set L)"
    using sub inj by (auto dest: inj_onD)
  have tp: "map (tiePlayer (map userId L)) (players g) =
            map (\<lambda>p. if p \<in> set L
                      then p\<lparr>hasDrawn := False, currentCard := None, inTieBreaker := True\<rparr>
                      else if isEliminated p then p
                      else p\<lparr>inTieBreaker := False\<rparr>) (players g)"
  proof (rule map_cong [OF refl])
    fix p assume p: "p \<in> set (players g)"
    show "tiePlayer (map userId L) p =
          (if p \<in> set L
           then p\<lparr>hasDrawn := False, currentCard := None, inTieBreaker := True\<rparr>
           else if isEliminated p then p else p\<lparr>inTieBreaker := False\<rparr>)"
      using mem [OF p] act [of p] by (auto simp: tiePlayer_def simp del: set_map)
  qed
  from assms(4) obtain a b rest where L3: "L = a # b # rest"
    unfolding L_def by (cases "minimalHolders (inScope g)" rule: list.exhaust;
      cases "tl (minimalHolders (inScope g))") auto
  have low: "lowestHands (currentHandsPlayers g) = a # b # rest"
    by (simp add: lowestHands_minimal currentHandsPlayers_inScope L_def [symmetric] L3)
  have cur: "currentHandsPlayers g \<noteq> []"
    by (simp add: currentHandsPlayers_inScope assms(3))
  have "tallyRound w now =
           (Some (Tie L (currentRound g + 1)),
            w\<lparr>gameKey := Some (g
               \<lparr>players := map (tiePlayer (map userId L)) (players g),
                isTieBreaker := True, wasTieBreaker := True,
                currentRound := currentRound g + 1, isRoundStarted := True,
                countdownEndsAt := Some (now + COUNTDOWN_DELAY),
                roundDeadline := Some (now + COUNTDOWN_DELAY + DRAW_TIMEOUT)\<rparr>)\<rparr>)"
    using assms(1) low cur by (simp add: tallyRound_def Let_def L3)
  then show ?thesis unfolding tp unfolding L_def .
qed

lemma tie_keeps_players:
  "map isEliminated
     (map (\<lambda>p. if p \<in> S
                then p\<lparr>hasDrawn := False, currentCard := None, inTieBreaker := True\<rparr>
                else if isEliminated p then p else p\<lparr>inTieBreaker := False\<rparr>) ps) =
   map isEliminated ps"
  by (induction ps) auto

lemmas round_defs = roundA_def roundB_def roundC_def holding_def mkCard_def getCardCode_def
  inScope_def minimalHolders_def cardValue_def markOut_def





lemma refund_credit:
  assumes "gameKey w = Some g"
      and "distinct (map userId (players g))"
      and "p \<in> set (players g)"
      and "users w (userId p) = Some b"
  shows "(status g = Waiting \<and> startedBy g = uid \<longrightarrow>
            success (fst (cancelByStarter w uid uname)) \<and>
            users (snd (cancelByStarter w uid uname)) (userId p) = Some (b + entryAmount g)) \<and>
         (status g = Waiting \<longrightarrow>
            success (fst (stopGame w)) \<and>
            users (snd (stopGame w)) (userId p) = Some (b + entryAmount g)) \<and>
         (status g = Waiting \<and> length (players g) < 2 \<longrightarrow>
            fst (beginGame w e) = Some Cancelled \<and>
            users (snd (beginGame w e)) (userId p) = Some (b + entryAmount g)) \<and>
         (\<not> isEliminated p \<longrightarrow>
            users (snd (resetGame w)) (userId p) = Some (b + entryAmount g)) \<and>
         (isEliminated p \<longrightarrow> users (snd (resetGame w)) (userId p) = Some b)"
proof -
  have all: "users (refundAll w (entryAmount g) (players g)) (userId p) = Some (b + entryAmount g)"
    using assms by (simp add: users_refundAll)
  have act: "\<not> isEliminated p \<Longrightarrow>
      users (refundActive w (entryAmount g) (players g)) (userId p) = Some (b + entryAmount g)"
    using assms by (auto simp: users_refundActive)
  have "\<And>q. q \<in> set (players g) \<Longrightarrow> userId q = userId p \<Longrightarrow> q = p"
    using assms(2,3) by (meson distinct_map inj_onD)
  then have out: "isEliminated p \<Longrightarrow> userId p \<notin> userId ` {q \<in> set (players g). \<not> isEliminated q}"
    by auto
  have elim: "isEliminated p \<Longrightarrow>
      users (refundActive w (entryAmount g) (players g)) (userId p) = Some b"
    using assms out by (simp add: users_refundActive)
  have c: "status g = Waiting \<and> startedBy g = uid \<longrightarrow>
            success (fst (cancelByStarter w uid uname)) \<and>
            users (snd (cancelByStarter w uid uname)) (userId p) = Some (b + entryAmount g)"
    using assms(1) all by (simp add: cancelByStarter_def accept_def users_cleanupRedisKeys)
  have s: "status g = Waiting \<longrightarrow>
            success (fst (stopGame w)) \<and>
            users (snd (stopGame w)) (userId p) = Some (b + entryAmount g)"
    using assms(1) all by (simp add: stopGame_def accept_def users_cleanupRedisKeys)
  have bg: "status g = Waiting \<and> length (players g) < 2 \<longrightarrow>
            fst (beginGame w e) = Some Cancelled \<and>
            users (snd (beginGame w e)) (userId p) = Some (b + entryAmount g)"
    using users_beginGame_cancel [OF assms(1)] all by simp
  have r1: "\<not> isEliminated p \<longrightarrow>
            users (snd (resetGame w)) (userId p) = Some (b + entryAmount g)"
    using assms(1) act by (simp add: resetGame_def clearDeck_def clearTimer_def)
  have r2: "isEliminated p \<longrightarrow> users (snd (resetGame w)) (userId p) = Some b"
    using assms(1) elim by (simp add: resetGame_def clearDeck_def clearTimer_def)
  from c s bg r1 r2 show ?thesis by blast
qed

lemma deducted_balance:
  "deducted w0 h g p b0 b \<Longrightarrow> b = b0 - takenFromCredits h (userId p) (entryAmount g)"
proof -
  assume d: "deducted w0 h g p b0 b"
  then have "users w0 (userId p) = Some b0"
    "fst (fst (deductCredits w0 h (userId p) (entryAmount g)))"
    by (simp_all add: deducted_def)
  from users_deductCredits [OF this] d show ?thesis
    by (simp add: deducted_def takenFromCredits_def)
qed

section \<open>Properties of the lock manager\<close>

text \<open>
  C7. \<^verbatim>\<open>releaseLock(k, t)\<close> deletes the key exactly when the value stored at \<open>k\<close> is
  \<open>t\<close>: a matching token empties the slot and touches no other key, any other token
  leaves the store as it is; after \<^verbatim>\<open>acquireLock(k)\<close> returned \<open>t\<close> the release with
  \<open>t\<close> empties the slot; and after the key expired and another party acquired it with
  a different token, the release with the stale token leaves the new holder's lock in place.
\<close>

theorem releaseLock_token_bound:
  "(s k = Some t \<longrightarrow> releaseLock s k t = s(k := None)) \<and>
   (s k \<noteq> Some t \<longrightarrow> releaseLock s k t = s) \<and>
   ((releaseLock s k t k = None \<and> s k \<noteq> None) \<longleftrightarrow> s k = Some t) \<and>
   (acquireLock s k t = (Some t, s1) \<longrightarrow> releaseLock s1 k t k = None) \<and>
   (acquireLock s k t = (Some t, s1) \<and> t2 \<noteq> t \<and>
      acquireLock (expire s1 k) k t2 = (Some t2, s2) \<longrightarrow>
      releaseLock s2 k t = s2 \<and> s2 k = Some t2)"
  by (auto simp: releaseLock_def acquireLock_def expire_def split: if_splits)

theorem releaseLock_token_bound_witness:
  "releaseLock [joinLock \<mapsto> ''a1''] joinLock ''a1'' = [joinLock \<mapsto> ''a1''](joinLock := None) \<and>
   releaseLock [joinLock \<mapsto> ''b2''] joinLock ''a1'' = [joinLock \<mapsto> ''b2''] \<and>
   acquireLock Map.empty joinLock ''a1'' = (Some ''a1'', [joinLock \<mapsto> ''a1'']) \<and>
   acquireLock (expire [joinLock \<mapsto> ''a1''] joinLock) joinLock ''b2'' = (Some ''b2'', [joinLock \<mapsto> ''b2'']) \<and>
   releaseLock [joinLock \<mapsto> ''a1''] joinLock ''a1'' joinLock = None \<and>
   [joinLock \<mapsto> ''b2''] joinLock = Some ''b2''"
proof -
  have a: "acquireLock Map.empty joinLock ''a1'' = (Some ''a1'', [joinLock \<mapsto> ''a1''])"
    by (simp add: acquireLock_def)
  have b: "acquireLock (expire [joinLock \<mapsto> ''a1''] joinLock) joinLock ''b2'' = (Some ''b2'', [joinLock \<mapsto> ''b2''])"
    by (simp add: acquireLock_def expire_def)
  have c: "''b2'' \<noteq> ''a1''" by simp
  note own = releaseLock_token_bound [of "[joinLock \<mapsto> ''a1'']" joinLock "''a1''"]
  note stale = releaseLock_token_bound
    [of Map.empty joinLock "''a1''" "[joinLock \<mapsto> ''a1'']" "''b2''" "[joinLock \<mapsto> ''b2'']"]
  from own have 1: "releaseLock [joinLock \<mapsto> ''a1''] joinLock ''a1'' = [joinLock \<mapsto> ''a1''](joinLock := None)"
    by simp
  from stale a b c have 2: "releaseLock [joinLock \<mapsto> ''b2''] joinLock ''a1'' = [joinLock \<mapsto> ''b2'']"
    by simp
  from stale a have 3: "releaseLock [joinLock \<mapsto> ''a1''] joinLock ''a1'' joinLock = None"
    by simp
  from 1 2 3 a b show ?thesis by simp
qed

section \<open>Properties of the ledger\<close>

text \<open>
  C1. A game played to completion: the pot is \<open>entryAmount * n\<close>, every player's
  balance is the balance \<open>c0\<close> from before the game less the entry, the user ids are
  pairwise different and \<open>wn\<close> is the only player not eliminated. Then \<^verbatim>\<open>finishGame\<close>
  computes the house fee \<open>floor (pot * 10 / 100)\<close> and the winnings \<open>pot - fee\<close>, credits
  the winnings to \<open>wn\<close> and to nobody else, and the credit deltas of all players since
  before the game add up to minus the house fee.
\<close>

theorem finishGame_conservation:
  assumes "pot g = entryAmount g * int (length (players g))"
      and "distinct (map userId (players g))"
      and "filter (\<lambda>p. \<not> isEliminated p) (players g) = [wn]"
      and "\<forall>p\<in>set (players g). users w (userId p) = Some (c0 (userId p) - entryAmount g)"
  shows "houseFeeOut (fst (finishGame w g [wn] loser)) = pot g * 10 div 100 \<and>
         winningsOut (fst (finishGame w g [wn] loser)) =
           pot g - houseFeeOut (fst (finishGame w g [wn] loser)) \<and>
         winner (fst (finishGame w g [wn] loser)) = Some wn \<and>
         users (snd (finishGame w g [wn] loser)) =
           (users w)(userId wn \<mapsto>
              c0 (userId wn) - entryAmount g + winningsOut (fst (finishGame w g [wn] loser))) \<and>
         (\<Sum>p\<leftarrow>players g. creditsOf (snd (finishGame w g [wn] loser)) (userId p) - c0 (userId p)) =
           - houseFeeOut (fst (finishGame w g [wn] loser))"
proof -
  define fee where "fee = pot g * 10 div 100"
  define win where "win = pot g - fee"
  have "wn \<in> set (filter (\<lambda>p. \<not> isEliminated p) (players g))"
    using assms(3) by simp
  then have wn: "wn \<in> set (players g)" by simp
  with assms(4) have uw: "users w (userId wn) = Some (c0 (userId wn) - entryAmount g)"
    by blast
  have fin: "finishGame w g [wn] loser =
      (\<lparr>eliminated = loser, winner = Some wn, winningsOut = win, houseFeeOut = fee,
        potTotal = pot g, balanceOut = c0 (userId wn) - entryAmount g + win\<rparr>,
       cleanupRedisKeys ((payCommission w g fee)
         \<lparr>users := (users w)(userId wn \<mapsto> c0 (userId wn) - entryAmount g + win),
          creditsCache := (creditsCache (payCommission w g fee))
             (userId wn \<mapsto> c0 (userId wn) - entryAmount g + win)\<rparr>))"
    using uw
    by (simp add: finishGame_def Let_def HOUSE_FEE_PERCENT_def fee_def win_def addCredits_def
        users_payCommission)
  have us: "users (snd (finishGame w g [wn] loser)) =
      (users w)(userId wn \<mapsto> c0 (userId wn) - entryAmount g + win)"
    by (simp add: fin cleanupRedisKeys_def)
  have each: "\<And>p. p \<in> set (players g) \<Longrightarrow>
      creditsOf (snd (finishGame w g [wn] loser)) (userId p) - c0 (userId p) =
      (if userId p = userId wn then win else 0) - entryAmount g"
    using assms(4) by (simp add: creditsOf_def us)
  have "(\<Sum>p\<leftarrow>players g. creditsOf (snd (finishGame w g [wn] loser)) (userId p) - c0 (userId p)) =
        (\<Sum>p\<leftarrow>players g. (if userId p = userId wn then win else 0) - entryAmount g)"
    by (intro arg_cong [where f = sum_list] map_cong refl each)
  also have "\<dots> = (\<Sum>p\<leftarrow>players g. if userId p = userId wn then win else 0) -
        (\<Sum>p\<leftarrow>players g. entryAmount g)"
    by (simp add: sum_list_subtractf)
  also have "\<dots> = win - entryAmount g * int (length (players g))"
    using sum_single [OF assms(2) wn, of win] by (simp add: sum_list_triv mult.commute)
  also have "\<dots> = - fee"
    using assms(1) by (simp add: win_def)
  finally have total: "(\<Sum>p\<leftarrow>players g. creditsOf (snd (finishGame w g [wn] loser)) (userId p) - c0 (userId p)) = - fee" .
  show ?thesis
    using total us by (simp add: fin win_def fee_def)
qed

theorem finishGame_conservation_witness:
  "houseFeeOut (fst (finishGame (paidWorld (demoGame Playing [out alice, out bob, carol]))
       (demoGame Playing [out alice, out bob, carol]) [carol] (Some bob))) = 3 \<and>
   winningsOut (fst (finishGame (paidWorld (demoGame Playing [out alice, out bob, carol]))
       (demoGame Playing [out alice, out bob, carol]) [carol] (Some bob))) = 27 \<and>
   users (snd (finishGame (paidWorld (demoGame Playing [out alice, out bob, carol]))
       (demoGame Playing [out alice, out bob, carol]) [carol] (Some bob))) 3 = Some 117 \<and>
   (\<Sum>p\<leftarrow>[out alice, out bob, carol].
      creditsOf (snd (finishGame (paidWorld (demoGame Playing [out alice, out bob, carol]))
       (demoGame Playing [out alice, out bob, carol]) [carol] (Some bob))) (userId p) - 100) = - 3"
  using finishGame_conservation
    [of "demoGame Playing [out alice, out bob, carol]" carol
        "paidWorld (demoGame Playing [out alice, out bob, carol])" "\<lambda>u. 100" "Some bob"]
  by (simp add: demo_defs)

text \<open>
  C10. When the game is not waiting, or has no join deadline, or the clock is at most
  \<open>joinDeadline + 120 s\<close>, \<^verbatim>\<open>checkAndCleanupStaleGame\<close> returns \<^verbatim>\<open>null\<close> and the world is
  the same: no credit, and the game, timer and deck keys are untouched.
\<close>

theorem checkAndCleanupStaleGame_frame:
  assumes "gameKey w = Some g"
      and "status g \<noteq> Waiting \<or>
           (case joinDeadline g of None \<Rightarrow> True | Some jd \<Rightarrow> now \<le> jd + STALE_GAME_TIMEOUT)"
  shows "checkAndCleanupStaleGame w now = (None, w)"
  using assms by (auto simp: checkAndCleanupStaleGame_def split: option.splits)

theorem checkAndCleanupStaleGame_frame_witness:
  "checkAndCleanupStaleGame (paidWorld (demoGame Playing [alice, bob])) 999000 =
     (None, paidWorld (demoGame Playing [alice, bob])) \<and>
   checkAndCleanupStaleGame (paidWorld (demoGame Waiting [alice, bob])) 151000 =
     (None, paidWorld (demoGame Waiting [alice, bob]))"
proof -
  have 1: "checkAndCleanupStaleGame (paidWorld (demoGame Playing [alice, bob])) 999000 =
     (None, paidWorld (demoGame Playing [alice, bob]))"
    using checkAndCleanupStaleGame_frame
      [of "paidWorld (demoGame Playing [alice, bob])" "demoGame Playing [alice, bob]" 999000]
    by (simp add: demo_defs)
  have 2: "checkAndCleanupStaleGame (paidWorld (demoGame Waiting [alice, bob])) 151000 =
     (None, paidWorld (demoGame Waiting [alice, bob]))"
    using checkAndCleanupStaleGame_frame
      [of "paidWorld (demoGame Waiting [alice, bob])" "demoGame Waiting [alice, bob]" 151000]
    by (simp add: demo_defs STALE_GAME_TIMEOUT_def)
  from 1 2 show ?thesis by simp
qed

section \<open>Properties of start and join\<close>

text \<open>
  C4. A successful \<^verbatim>\<open>startGame\<close> leaves a snapshot with one player and \<open>pot = entryAmount\<close>;
  a successful \<^verbatim>\<open>joinGame\<close> appends exactly one player and adds exactly the entry amount
  to the pot, so it preserves \<open>pot = entryAmount * |players|\<close>; and the equation holds in
  every snapshot reached from a successful start by serialized joins.
\<close>

theorem pot_equation:
  "(success (fst (startGame w e uid uname amount)) \<longrightarrow>
      (\<exists>g. gameKey (snd (startGame w e uid uname amount)) = Some g \<and>
           length (players g) = 1 \<and> pot g = entryAmount g \<and>
           pot g = entryAmount g * int (length (players g)))) \<and>
   (gameKey w = Some g \<and> success (fst (joinGame w je jid jname)) \<longrightarrow>
      (\<exists>g2. gameKey (snd (joinGame w je jid jname)) = Some g2 \<and>
            players g2 = players g @ [newPlayer jid jname] \<and>
            pot g2 = pot g + entryAmount g \<and> entryAmount g2 = entryAmount g \<and>
            (pot g = entryAmount g * int (length (players g)) \<longrightarrow>
             pot g2 = entryAmount g2 * int (length (players g2))))) \<and>
   (success (fst (startGame w e uid uname amount)) \<and>
    gameKey (joinAll (snd (startGame w e uid uname amount)) calls) = Some g' \<longrightarrow>
      pot g' = entryAmount g' * int (length (players g')))"
proof -
  have 1: "\<exists>g. gameKey (snd (startGame w e uid uname amount)) = Some g \<and>
           length (players g) = 1 \<and> pot g = entryAmount g \<and>
           pot g = entryAmount g * int (length (players g))"
    if "success (fst (startGame w e uid uname amount))"
    using startGame_success [OF that] by (auto simp: newGame_def)
  have 2: "\<exists>g2. gameKey (snd (joinGame w je jid jname)) = Some g2 \<and>
            players g2 = players g @ [newPlayer jid jname] \<and>
            pot g2 = pot g + entryAmount g \<and> entryAmount g2 = entryAmount g \<and>
            (pot g = entryAmount g * int (length (players g)) \<longrightarrow>
             pot g2 = entryAmount g2 * int (length (players g2)))"
    if k: "gameKey w = Some g" and s: "success (fst (joinGame w je jid jname))"
  proof -
    obtain r w' where run: "joinGame w je jid jname = (r, w')" by (metis prod.exhaust)
    from joinGame_cases [OF run] s run k
    have "gameKey w' = Some (g\<lparr>players := players g @ [newPlayer jid jname],
                                 pot := pot g + entryAmount g\<rparr>)"
      by auto
    with run show ?thesis by (simp add: algebra_simps)
  qed
  have 3: "pot g' = entryAmount g' * int (length (players g'))"
    if s: "success (fst (startGame w e uid uname amount))"
      and k: "gameKey (joinAll (snd (startGame w e uid uname amount)) calls) = Some g'"
  proof -
    from startGame_success [OF s] have "snapshotOk (snd (startGame w e uid uname amount))"
      by (auto simp: snapshotOk_def newGame_def)
    then have "snapshotOk (joinAll (snd (startGame w e uid uname amount)) calls)"
      by (rule snapshotOk_joinAll)
    with k show ?thesis by (simp add: snapshotOk_def)
  qed
  from 1 2 3 show ?thesis by blast
qed

theorem pot_equation_witness:
  "success (fst (startGame demoWorld demoStart 1 ''alice'' (Some 10))) \<and>
   map_option (\<lambda>g. (pot g, entryAmount g, length (players g)))
     (gameKey (snd (startGame demoWorld demoStart 1 ''alice'' (Some 10)))) = Some (10, 10, 1) \<and>
   success (fst (joinGame (paidWorld (demoGame Waiting [alice, bob])) demoJoin 3 ''carol'')) \<and>
   map_option (\<lambda>g. (pot g, entryAmount g, length (players g)))
     (gameKey (snd (joinGame (paidWorld (demoGame Waiting [alice, bob])) demoJoin 3 ''carol''))) =
     Some (30, 10, 3) \<and>
   map_option (\<lambda>g. (pot g, entryAmount g, length (players g)))
     (gameKey (joinAll (snd (startGame demoWorld demoStart 1 ''alice'' (Some 10)))
        [(demoJoin, 2, ''bob''), (demoJoin, 3, ''carol'')])) = Some (30, 10, 3)"
proof -
  define calls where "calls = [(demoJoin, 2::nat, ''bob''), (demoJoin, 3, ''carol'')]"
  have s: "success (fst (startGame demoWorld demoStart 1 ''alice'' (Some 10)))"
    unfolding demo_start by (simp add: accept_def)
  have k0: "map_option (\<lambda>g. (pot g, entryAmount g, length (players g)))
     (gameKey (snd (startGame demoWorld demoStart 1 ''alice'' (Some 10)))) = Some (10, 10, 1)"
    unfolding demo_start by (simp add: demo_defs)
  have j: "success (fst (joinGame (paidWorld (demoGame Waiting [alice, bob])) demoJoin 3 ''carol''))"
    unfolding demo_join by (simp add: accept_def)
  have k1: "map_option (\<lambda>g. (pot g, entryAmount g, length (players g)))
     (gameKey (snd (joinGame (paidWorld (demoGame Waiting [alice, bob])) demoJoin 3 ''carol''))) =
     Some (30, 10, 3)"
    unfolding demo_join by (simp add: demo_defs)
  have k: "map_option (\<lambda>g. (entryAmount g, length (players g)))
     (gameKey (joinAll (snd (startGame demoWorld demoStart 1 ''alice'' (Some 10))) calls)) = Some (10, 3)"
    unfolding demo_start by (simp add: calls_def join_defs demo_defs demoJoin_def)
  then obtain g' where g': "gameKey (joinAll (snd (startGame demoWorld demoStart 1 ''alice'' (Some 10))) calls) = Some g'"
    "entryAmount g' = 10" "length (players g') = 3"
    by auto
  note inst = pot_equation
    [of demoWorld demoStart 1 "''alice''" "Some 10" "demoGame Waiting [alice, bob]" demoJoin 3 "''carol''"
        calls g']
  from inst s g' have "pot g' = 30" by simp
  with s k0 j k1 g' show ?thesis by (simp add: calls_def)
qed

text \<open>
  C5. \<^verbatim>\<open>joinGame\<close> rejects a user id that is already among the players and leaves the
  world as it is (no deduction, same snapshot); so in every snapshot reached from a
  successful start by serialized joins the user ids are pairwise different, that is
  \<open>|{p.userId}| = |players|\<close>.
\<close>

theorem joinGame_no_duplicates:
  "(gameKey w = Some g \<and> uid \<in> userId ` set (players g) \<longrightarrow>
      \<not> success (fst (joinGame w e uid uname)) \<and> snd (joinGame w e uid uname) = w) \<and>
   (success (fst (startGame w0 se u0 n0 a0)) \<and>
    gameKey (joinAll (snd (startGame w0 se u0 n0 a0)) calls) = Some g' \<longrightarrow>
      distinct (map userId (players g')) \<and>
      card (userId ` set (players g')) = length (players g'))"
proof -
  have 1: "gameKey w = Some g \<and> uid \<in> userId ` set (players g) \<longrightarrow>
      \<not> success (fst (joinGame w e uid uname)) \<and> snd (joinGame w e uid uname) = w"
    using joinGame_duplicate by blast
  have 2: "distinct (map userId (players g')) \<and>
      card (userId ` set (players g')) = length (players g')"
    if s: "success (fst (startGame w0 se u0 n0 a0))"
      and k: "gameKey (joinAll (snd (startGame w0 se u0 n0 a0)) calls) = Some g'"
  proof -
    from startGame_success [OF s] have "snapshotOk (snd (startGame w0 se u0 n0 a0))"
      by (auto simp: snapshotOk_def newGame_def)
    then have "snapshotOk (joinAll (snd (startGame w0 se u0 n0 a0)) calls)"
      by (rule snapshotOk_joinAll)
    with k have d: "distinct (map userId (players g'))" by (simp add: snapshotOk_def)
    from distinct_card [OF d] d show ?thesis by simp
  qed
  from 1 2 show ?thesis by blast
qed

theorem joinGame_no_duplicates_witness:
  "\<not> success (fst (joinGame (paidWorld (demoGame Waiting [alice, bob])) demoJoin 2 ''bob'')) \<and>
   snd (joinGame (paidWorld (demoGame Waiting [alice, bob])) demoJoin 2 ''bob'') =
     paidWorld (demoGame Waiting [alice, bob]) \<and>
   success (fst (startGame demoWorld demoStart 1 ''alice'' (Some 10))) \<and>
   map_option (\<lambda>g. map userId (players g))
     (gameKey (joinAll (snd (startGame demoWorld demoStart 1 ''alice'' (Some 10)))
        [(demoJoin, 2, ''bob''), (demoJoin, 2, ''bob''), (demoJoin, 3, ''carol'')])) = Some [1, 2, 3] \<and>
   distinct [1, 2, 3 :: nat]"
proof -
  define calls where "calls = [(demoJoin, 2::nat, ''bob''), (demoJoin, 2, ''bob''), (demoJoin, 3, ''carol'')]"
  have s: "success (fst (startGame demoWorld demoStart 1 ''alice'' (Some 10)))"
    unfolding demo_start by (simp add: accept_def)
  have k: "map_option (\<lambda>g. map userId (players g))
     (gameKey (joinAll (snd (startGame demoWorld demoStart 1 ''alice'' (Some 10))) calls)) = Some [1, 2, 3]"
    unfolding demo_start by (simp add: calls_def join_defs demo_defs demoJoin_def)
  then obtain g' where g': "gameKey (joinAll (snd (startGame demoWorld demoStart 1 ''alice'' (Some 10))) calls) = Some g'"
    "map userId (players g') = [1, 2, 3]"
    by auto
  note dup = joinGame_no_duplicates
    [of "paidWorld (demoGame Waiting [alice, bob])" "demoGame Waiting [alice, bob]" 2 demoJoin "''bob''"
        demoWorld demoStart 1 "''alice''" "Some 10" calls g']
  have 1: "\<not> success (fst (joinGame (paidWorld (demoGame Waiting [alice, bob])) demoJoin 2 ''bob'')) \<and>
   snd (joinGame (paidWorld (demoGame Waiting [alice, bob])) demoJoin 2 ''bob'') =
     paidWorld (demoGame Waiting [alice, bob])"
    using dup by (simp add: demo_defs)
  from dup s g' have 2: "distinct (map userId (players g'))" by blast
  from 1 2 s k g' show ?thesis by (simp add: calls_def)
qed

text \<open>
  C6 at the amount \<open>0\<close>: \<^verbatim>\<open>parseInt(amount) || minEntry\<close> replaces the falsy \<open>0\<close> by
  \<open>minEntry\<close> before the check \<^verbatim>\<open>requestedAmount < minEntry\<close>, so \<^verbatim>\<open>startGame\<close> with
  amount \<open>0\<close> is not rejected: it deducts the minimal entry of 1 and writes a snapshot.
  (A negative amount is rejected with the \<^verbatim>\<open>Minimal\<close> message, see
  \<open>startGame_negative_rejected\<close>.)
\<close>

theorem startGame_zero_amount:
  "startGame demoWorld demoStart 1 ''alice'' (Some 0) =
     ((accept (StartedBy ''alice'' 1))\<lparr>gameId := Some 7, newBalance := Some 99\<rparr>,
      demoWorld\<lparr>users := [1 \<mapsto> 99, 2 \<mapsto> 100, 3 \<mapsto> 100], creditsCache := [1 \<mapsto> 99],
                gameKey := Some (newGame demoStart 1 ''alice'' 1)\<rparr>)"
  by (simp add: start_defs demo_defs fun_upd_twist)

section \<open>Properties of draw\<close>

text \<open>
  C9. With a game in the room, the draw lock free and a clock that is not negative,
  \<^verbatim>\<open>drawCardForPlayer\<close> rejects exactly when a guard fails (status not playing; clock
  before \<open>countdownEndsAt\<close>; caller not a non-eliminated player; tie-breaker and caller not
  tied; caller already drew), and the world is then unchanged; the rejection during the
  countdown is silent. Otherwise it pops the last card of the room's deck, records it as
  the caller's \<open>currentCard\<close>, sets \<open>hasDrawn\<close>, and persists the snapshot and the rest of
  the deck.
\<close>

theorem drawCardForPlayer_guards:
  assumes "gameKey w = Some g"
      and "locks w drawLock = None"
      and "ptokens e \<noteq> []"
      and "0 \<le> pnow e"
  shows "(drawGuardFails g (pnow e) uid \<longrightarrow>
            \<not> success (fst (drawCardForPlayer w e uid uname)) \<and>
            snd (drawCardForPlayer w e uid uname) = w) \<and>
         (status g = Playing \<and>
          (case countdownEndsAt g of Some c \<Rightarrow> pnow e < c | None \<Rightarrow> False) \<longrightarrow>
            silent (fst (drawCardForPlayer w e uid uname)) \<and>
            message (fst (drawCardForPlayer w e uid uname)) = Some WaitCountdown) \<and>
         (\<not> drawGuardFails g (pnow e) uid \<longrightarrow>
            (\<exists>i. findIndex (\<lambda>p. userId p = uid \<and> \<not> isEliminated p) (players g) = Some i \<and>
                 i < length (players g) \<and>
                 success (fst (drawCardForPlayer w e uid uname)) \<and>
                 cardOut (fst (drawCardForPlayer w e uid uname)) = Some (last (roomDeck w (prnd e))) \<and>
                 snd (drawCardForPlayer w e uid uname) =
                   w\<lparr>deckKey := Some (butlast (roomDeck w (prnd e))),
                     gameKey := Some (g\<lparr>players := (players g)
                        [i := (players g ! i)\<lparr>currentCard := Some (last (roomDeck w (prnd e))),
                                               hasDrawn := True\<rparr>]\<rparr>)\<rparr>))"
proof -
  from drawCardForPlayer_locked [OF assms(2,3)] obtain t where
    run: "drawCardForPlayer w e uid uname =
           (fst (drawCardLocked (w\<lparr>locks := (locks w)(drawLock \<mapsto> t)\<rparr>) e uid uname),
            (snd (drawCardLocked (w\<lparr>locks := (locks w)(drawLock \<mapsto> t)\<rparr>) e uid uname))
              \<lparr>locks := releaseLock
                 (locks (snd (drawCardLocked (w\<lparr>locks := (locks w)(drawLock \<mapsto> t)\<rparr>) e uid uname)))
                 drawLock t\<rparr>)"
    by blast
  define wl where "wl = w\<lparr>locks := (locks w)(drawLock \<mapsto> t)\<rparr>"
  have gl: "gameKey wl = Some g" by (simp add: wl_def assms(1))
  have rel: "releaseLock ((locks w)(drawLock \<mapsto> t)) drawLock t = locks w"
    using assms(2) by (rule release_after_acquire)
  have 1: "\<not> success (fst (drawCardForPlayer w e uid uname)) \<and>
            snd (drawCardForPlayer w e uid uname) = w"
    if "drawGuardFails g (pnow e) uid"
    using drawCardLocked_reject [OF gl assms(4) that, of uname] rel
    by (simp add: run wl_def [symmetric]) (simp add: wl_def)
  have 2: "silent (fst (drawCardForPlayer w e uid uname)) \<and>
            message (fst (drawCardForPlayer w e uid uname)) = Some WaitCountdown"
    if "status g = Playing" "case countdownEndsAt g of Some c \<Rightarrow> pnow e < c | None \<Rightarrow> False"
    using drawCardLocked_silent [OF gl assms(4) that, of uid uname]
    by (simp add: run wl_def [symmetric] reject_def)
  have 3: "\<exists>i. findIndex (\<lambda>p. userId p = uid \<and> \<not> isEliminated p) (players g) = Some i \<and>
                 i < length (players g) \<and>
                 success (fst (drawCardForPlayer w e uid uname)) \<and>
                 cardOut (fst (drawCardForPlayer w e uid uname)) = Some (last (roomDeck w (prnd e))) \<and>
                 snd (drawCardForPlayer w e uid uname) =
                   w\<lparr>deckKey := Some (butlast (roomDeck w (prnd e))),
                     gameKey := Some (g\<lparr>players := (players g)
                        [i := (players g ! i)\<lparr>currentCard := Some (last (roomDeck w (prnd e))),
                                               hasDrawn := True\<rparr>]\<rparr>)\<rparr>"
    if "\<not> drawGuardFails g (pnow e) uid"
  proof -
    from drawCardLocked_accept [OF gl that, of uname] obtain i where
      i: "findIndex (\<lambda>p. userId p = uid \<and> \<not> isEliminated p) (players g) = Some i"
         "success (fst (drawCardLocked wl e uid uname))"
         "cardOut (fst (drawCardLocked wl e uid uname)) = Some (last (roomDeck wl (prnd e)))"
         "snd (drawCardLocked wl e uid uname) =
             wl\<lparr>deckKey := Some (butlast (roomDeck wl (prnd e))),
               gameKey := Some (g\<lparr>players := (players g)
                  [i := (players g ! i)\<lparr>currentCard := Some (last (roomDeck wl (prnd e))),
                                         hasDrawn := True\<rparr>]\<rparr>)\<rparr>"
      by blast
    have rd: "roomDeck wl (prnd e) = roomDeck w (prnd e)"
      by (simp add: wl_def roomDeck_locks)
    from i rd rel findIndex_less [OF i(1)] show ?thesis
      by (simp add: run wl_def [symmetric]) (simp add: wl_def)
  qed
  from 1 2 3 show ?thesis by blast
qed

theorem drawCardForPlayer_guards_witness:
  "\<not> success (fst (drawCardForPlayer (drawWorld (Some 4000)) demoPlay 3 ''carol'')) \<and>
   snd (drawCardForPlayer (drawWorld (Some 4000)) demoPlay 3 ''carol'') = drawWorld (Some 4000) \<and>
   silent (fst (drawCardForPlayer (drawWorld (Some 9000)) demoPlay 2 ''bob'')) \<and>
   snd (drawCardForPlayer (drawWorld (Some 9000)) demoPlay 2 ''bob'') = drawWorld (Some 9000) \<and>
   success (fst (drawCardForPlayer (drawWorld (Some 4000)) demoPlay 2 ''bob'')) \<and>
   cardOut (fst (drawCardForPlayer (drawWorld (Some 4000)) demoPlay 2 ''bob'')) =
     Some (mkCard CHR ''s'' 9) \<and>
   deckKey (snd (drawCardForPlayer (drawWorld (Some 4000)) demoPlay 2 ''bob'')) =
     Some [mkCard CHR ''h'' 5] \<and>
   map_option (\<lambda>g. map (\<lambda>p. (hasDrawn p, map_option cvalue (currentCard p))) (players g))
     (gameKey (snd (drawCardForPlayer (drawWorld (Some 4000)) demoPlay 2 ''bob''))) =
     Some [(False, None), (True, Some 9)]"
proof -
  have pre: "\<And>c. gameKey (drawWorld c) = Some ((demoGame Playing [alice, bob])\<lparr>countdownEndsAt := c\<rparr>)"
    "\<And>c. locks (drawWorld c) drawLock = None" "ptokens demoPlay \<noteq> []" "0 \<le> pnow demoPlay"
    by (simp_all add: drawWorld_def paidWorld_def demoWorld_def demoPlay_def)
  note g1 = drawCardForPlayer_guards [OF pre(1) pre(2) pre(3) pre(4), of "Some 4000" 3 "''carol''"]
  note g2 = drawCardForPlayer_guards [OF pre(1) pre(2) pre(3) pre(4), of "Some 9000" 2 "''bob''"]
  note g3 = drawCardForPlayer_guards [OF pre(1) pre(2) pre(3) pre(4), of "Some 4000" 2 "''bob''"]
  have f1: "drawGuardFails ((demoGame Playing [alice, bob])\<lparr>countdownEndsAt := Some 4000\<rparr>) (pnow demoPlay) 3"
    by (simp add: drawGuardFails_def demo_defs demoPlay_def)
  have f2: "drawGuardFails ((demoGame Playing [alice, bob])\<lparr>countdownEndsAt := Some 9000\<rparr>) (pnow demoPlay) 2"
    "status ((demoGame Playing [alice, bob])\<lparr>countdownEndsAt := Some 9000\<rparr>) = Playing"
    "case countdownEndsAt ((demoGame Playing [alice, bob])\<lparr>countdownEndsAt := Some 9000\<rparr>) of
       Some c \<Rightarrow> pnow demoPlay < c | None \<Rightarrow> False"
    by (simp_all add: drawGuardFails_def demo_defs demoPlay_def)
  have f3: "\<not> drawGuardFails ((demoGame Playing [alice, bob])\<lparr>countdownEndsAt := Some 4000\<rparr>) (pnow demoPlay) 2"
    by (simp add: drawGuardFails_def demo_defs demoPlay_def)
  have rd: "roomDeck (drawWorld (Some 4000)) (prnd demoPlay) = [mkCard CHR ''h'' 5, mkCard CHR ''s'' 9]"
    by (simp add: roomDeck_def drawWorld_def)
  from g1 f1 have 1: "\<not> success (fst (drawCardForPlayer (drawWorld (Some 4000)) demoPlay 3 ''carol'')) \<and>
   snd (drawCardForPlayer (drawWorld (Some 4000)) demoPlay 3 ''carol'') = drawWorld (Some 4000)"
    by blast
  from g2 f2 have 2: "silent (fst (drawCardForPlayer (drawWorld (Some 9000)) demoPlay 2 ''bob'')) \<and>
   snd (drawCardForPlayer (drawWorld (Some 9000)) demoPlay 2 ''bob'') = drawWorld (Some 9000)"
    by blast
  from g3 f3 obtain i where
    i: "findIndex (\<lambda>p. userId p = 2 \<and> \<not> isEliminated p)
          (players ((demoGame Playing [alice, bob])\<lparr>countdownEndsAt := Some 4000\<rparr>)) = Some i"
       "success (fst (drawCardForPlayer (drawWorld (Some 4000)) demoPlay 2 ''bob''))"
       "cardOut (fst (drawCardForPlayer (drawWorld (Some 4000)) demoPlay 2 ''bob'')) =
          Some (last (roomDeck (drawWorld (Some 4000)) (prnd demoPlay)))"
       "snd (drawCardForPlayer (drawWorld (Some 4000)) demoPlay 2 ''bob'') =
          (drawWorld (Some 4000))
            \<lparr>deckKey := Some (butlast (roomDeck (drawWorld (Some 4000)) (prnd demoPlay))),
             gameKey := Some (((demoGame Playing [alice, bob])\<lparr>countdownEndsAt := Some 4000\<rparr>)
               \<lparr>players := (players ((demoGame Playing [alice, bob])\<lparr>countdownEndsAt := Some 4000\<rparr>))
                  [i := (players ((demoGame Playing [alice, bob])\<lparr>countdownEndsAt := Some 4000\<rparr>) ! i)
                     \<lparr>currentCard := Some (last (roomDeck (drawWorld (Some 4000)) (prnd demoPlay))),
                      hasDrawn := True\<rparr>]\<rparr>)\<rparr>"
    by blast
  from i(1) have i1: "i = 1" by (simp add: demo_defs)
  have 3: "success (fst (drawCardForPlayer (drawWorld (Some 4000)) demoPlay 2 ''bob'')) \<and>
   cardOut (fst (drawCardForPlayer (drawWorld (Some 4000)) demoPlay 2 ''bob'')) =
     Some (mkCard CHR ''s'' 9) \<and>
   deckKey (snd (drawCardForPlayer (drawWorld (Some 4000)) demoPlay 2 ''bob'')) =
     Some [mkCard CHR ''h'' 5] \<and>
   map_option (\<lambda>g. map (\<lambda>p. (hasDrawn p, map_option cvalue (currentCard p))) (players g))
     (gameKey (snd (drawCardForPlayer (drawWorld (Some 4000)) demoPlay 2 ''bob''))) =
     Some [(False, None), (True, Some 9)]"
    unfolding i(4) i(3) rd i1 using i(2) by (simp add: demo_defs mkCard_def)
  from 1 2 3 show ?thesis by blast
qed

section \<open>Properties of the tally\<close>

text \<open>
  C2. In a snapshot with pairwise different user ids in which some in-scope player
  holds a card, \<^verbatim>\<open>tallyRound\<close> computes the in-scope players whose card value is minimal;
  the comparison reads the value only (11, 12, 13, 14 are Jack, Queen, King, Ace), so
  two in-scope players with equal values are both lowest or both not, whatever the suits.
  If exactly one player \<open>l\<close> is lowest, exactly \<open>l\<close> is marked eliminated and the tie state
  is cleared; with fewer than two players left the result is that of \<^verbatim>\<open>finishGame\<close> on
  the remaining players, otherwise the round counter goes up by one and every surviving
  player has \<open>hasDrawn\<close> and \<open>currentCard\<close> reset. If two or more players are lowest,
  \<open>isTieBreaker\<close> and \<open>wasTieBreaker\<close> are set, exactly the tied players are reset and
  flagged \<open>inTieBreaker\<close>, the round counter goes up by one, and nobody is eliminated.
\<close>

theorem tallyRound_outcome:
  assumes "gameKey w = Some g"
      and "distinct (map userId (players g))"
      and "inScope g \<noteq> []"
  shows "lowestHands (currentHandsPlayers g) = minimalHolders (inScope g) \<and>
         map getCardCode [11, 12, 13, 14] = [''j'', ''q'', ''k'', ''a''] \<and>
         (\<forall>p\<in>set (inScope g). \<forall>q\<in>set (inScope g). cardValue p = cardValue q \<longrightarrow>
            (p \<in> set (minimalHolders (inScope g))) = (q \<in> set (minimalHolders (inScope g)))) \<and>
         (minimalHolders (inScope g) = [l] \<longrightarrow>
            map isEliminated (players (markOut g l)) =
              map (\<lambda>p. p = l \<or> isEliminated p) (players g) \<and>
            \<not> isTieBreaker (markOut g l) \<and>
            (\<forall>p\<in>set (players (markOut g l)). \<not> inTieBreaker p) \<and>
         (length (filter (\<lambda>p. \<not> isEliminated p) (players (markOut g l))) < 2 \<longrightarrow>
            tallyRound w now =
              (Some (GameOver (fst (finishGame w (markOut g l)
                  (filter (\<lambda>p. \<not> isEliminated p) (players (markOut g l))) (Some l)))),
               snd (finishGame w (markOut g l)
                  (filter (\<lambda>p. \<not> isEliminated p) (players (markOut g l))) (Some l)))) \<and>
         (2 \<le> length (filter (\<lambda>p. \<not> isEliminated p) (players (markOut g l))) \<longrightarrow>
            tallyRound w now =
              (Some (Eliminated l (currentRound g + 1) (wasTieBreaker g)),
               w\<lparr>gameKey := Some ((markOut g l)
                  \<lparr>currentRound := currentRound g + 1, isRoundStarted := True,
                   players := map (\<lambda>p. if isEliminated p then p
                                         else p\<lparr>hasDrawn := False, currentCard := None\<rparr>)
                                 (players (markOut g l)),
                   countdownEndsAt := Some (now + COUNTDOWN_DELAY),
                   roundDeadline := Some (now + COUNTDOWN_DELAY + DRAW_TIMEOUT),
                   wasTieBreaker := False\<rparr>)\<rparr>))) \<and>
         (2 \<le> length (minimalHolders (inScope g)) \<longrightarrow>
            tallyRound w now =
           (Some (Tie (minimalHolders (inScope g)) (currentRound g + 1)),
            w\<lparr>gameKey := Some (g
               \<lparr>players := map (\<lambda>p. if p \<in> set (minimalHolders (inScope g))
                                     then p\<lparr>hasDrawn := False, currentCard := None, inTieBreaker := True\<rparr>
                                     else if isEliminated p then p
                                     else p\<lparr>inTieBreaker := False\<rparr>)
                              (players g),
                isTieBreaker := True, wasTieBreaker := True,
                currentRound := currentRound g + 1, isRoundStarted := True,
                countdownEndsAt := Some (now + COUNTDOWN_DELAY),
                roundDeadline := Some (now + COUNTDOWN_DELAY + DRAW_TIMEOUT)\<rparr>)\<rparr>) \<and>
            (\<exists>g'. gameKey (snd (tallyRound w now)) = Some g' \<and>
                 map isEliminated (players g') = map isEliminated (players g)))"
proof -
  have 1: "lowestHands (currentHandsPlayers g) = minimalHolders (inScope g)"
    by (simp add: lowestHands_minimal currentHandsPlayers_inScope)
  have 2: "map getCardCode [11, 12, 13, 14] = [''j'', ''q'', ''k'', ''a'']"
    by (simp add: getCardCode_def)
  have 3: "\<forall>p\<in>set (inScope g). \<forall>q\<in>set (inScope g). cardValue p = cardValue q \<longrightarrow>
            (p \<in> set (minimalHolders (inScope g))) = (q \<in> set (minimalHolders (inScope g)))"
    by (simp add: minimalHolders_def)
  have 4: "map isEliminated (players (markOut g l)) =
              map (\<lambda>p. p = l \<or> isEliminated p) (players g) \<and>
            \<not> isTieBreaker (markOut g l) \<and>
            (\<forall>p\<in>set (players (markOut g l)). \<not> inTieBreaker p)"
    by (auto simp: markOut_def)
  have 5: "(length (filter (\<lambda>p. \<not> isEliminated p) (players (markOut g l))) < 2 \<longrightarrow>
            tallyRound w now =
              (Some (GameOver (fst (finishGame w (markOut g l)
                  (filter (\<lambda>p. \<not> isEliminated p) (players (markOut g l))) (Some l)))),
               snd (finishGame w (markOut g l)
                  (filter (\<lambda>p. \<not> isEliminated p) (players (markOut g l))) (Some l)))) \<and>
         (2 \<le> length (filter (\<lambda>p. \<not> isEliminated p) (players (markOut g l))) \<longrightarrow>
            tallyRound w now =
              (Some (Eliminated l (currentRound g + 1) (wasTieBreaker g)),
               w\<lparr>gameKey := Some ((markOut g l)
                  \<lparr>currentRound := currentRound g + 1, isRoundStarted := True,
                   players := map (\<lambda>p. if isEliminated p then p
                                         else p\<lparr>hasDrawn := False, currentCard := None\<rparr>)
                                 (players (markOut g l)),
                   countdownEndsAt := Some (now + COUNTDOWN_DELAY),
                   roundDeadline := Some (now + COUNTDOWN_DELAY + DRAW_TIMEOUT),
                   wasTieBreaker := False\<rparr>)\<rparr>))"
    if "minimalHolders (inScope g) = [l]"
    using assms that by (rule tally_single)
  have 6: "tallyRound w now =
           (Some (Tie (minimalHolders (inScope g)) (currentRound g + 1)),
            w\<lparr>gameKey := Some (g
               \<lparr>players := map (\<lambda>p. if p \<in> set (minimalHolders (inScope g))
                                     then p\<lparr>hasDrawn := False, currentCard := None, inTieBreaker := True\<rparr>
                                     else if isEliminated p then p
                                     else p\<lparr>inTieBreaker := False\<rparr>)
                              (players g),
                isTieBreaker := True, wasTieBreaker := True,
                currentRound := currentRound g + 1, isRoundStarted := True,
                countdownEndsAt := Some (now + COUNTDOWN_DELAY),
                roundDeadline := Some (now + COUNTDOWN_DELAY + DRAW_TIMEOUT)\<rparr>)\<rparr>)"
    if "2 \<le> length (minimalHolders (inScope g))"
    using assms that by (rule tally_tie)
  have 7: "\<exists>g'. gameKey (snd (tallyRound w now)) = Some g' \<and>
                 map isEliminated (players g') = map isEliminated (players g)"
    if "2 \<le> length (minimalHolders (inScope g))"
    unfolding 6 [OF that] by (simp add: tie_keeps_players)
  from 1 2 3 4 5 6 7 show ?thesis by blast
qed

theorem tallyRound_outcome_witness:
  "fst (tallyRound (paidWorld roundA) 50000) =
     Some (Eliminated (holding alice CHR ''h'' 5) 1 False) \<and>
   map_option (\<lambda>g. map (\<lambda>p. (isEliminated p, hasDrawn p)) (players g))
     (gameKey (snd (tallyRound (paidWorld roundA) 50000))) =
     Some [(True, True), (False, False), (False, False)] \<and>
   fst (tallyRound (paidWorld roundB) 50000) =
     Some (Tie [holding alice CHR ''h'' 5, holding bob CHR ''d'' 5] 1) \<and>
   map_option (\<lambda>g. map (\<lambda>p. (isEliminated p, inTieBreaker p, hasDrawn p)) (players g))
     (gameKey (snd (tallyRound (paidWorld roundB) 50000))) =
     Some [(False, True, False), (False, True, False), (False, False, True)] \<and>
   map_option (\<lambda>r. case r of GameOver i \<Rightarrow> (map_option userId (winner i), winningsOut i, houseFeeOut i)
                          | _ \<Rightarrow> (None, 0, 0))
     (fst (tallyRound (paidWorld roundC) 50000)) = Some (Some 3, 27, 3) \<and>
   users (snd (tallyRound (paidWorld roundC) 50000)) 3 = Some 117 \<and>
   gameKey (snd (tallyRound (paidWorld roundC) 50000)) = None"
proof -
  have pre: "\<And>g. gameKey (paidWorld g) = Some g"
    by (simp add: paidWorld_def)
  have dA: "distinct (map userId (players roundA))" "inScope roundA \<noteq> []"
    "minimalHolders (inScope roundA) = [holding alice CHR ''h'' 5]"
    by (simp_all add: round_defs demo_defs)
  have dB: "distinct (map userId (players roundB))" "inScope roundB \<noteq> []"
    "minimalHolders (inScope roundB) = [holding alice CHR ''h'' 5, holding bob CHR ''d'' 5]"
    by (simp_all add: round_defs demo_defs)
  have dC: "distinct (map userId (players roundC))" "inScope roundC \<noteq> []"
    "minimalHolders (inScope roundC) = [holding bob CHR ''c'' 4]"
    by (simp_all add: round_defs demo_defs)
  note a = tallyRound_outcome [OF pre dA(1) dA(2), of "holding alice CHR ''h'' 5" 50000]
  note b = tallyRound_outcome [OF pre dB(1) dB(2), of "holding alice CHR ''h'' 5" 50000]
  note c = tallyRound_outcome [OF pre dC(1) dC(2), of "holding bob CHR ''c'' 4" 50000]
  have lA: "2 \<le> length (filter (\<lambda>p. \<not> isEliminated p) (players (markOut roundA (holding alice CHR ''h'' 5))))"
    by (simp add: round_defs demo_defs)
  have lC: "length (filter (\<lambda>p. \<not> isEliminated p) (players (markOut roundC (holding bob CHR ''c'' 4)))) < 2"
    by (simp add: round_defs demo_defs)
  from a dA(3) lA have ra: "tallyRound (paidWorld roundA) 50000 =
      (Some (Eliminated (holding alice CHR ''h'' 5) (currentRound roundA + 1) (wasTieBreaker roundA)),
       (paidWorld roundA)\<lparr>gameKey := Some ((markOut roundA (holding alice CHR ''h'' 5))
          \<lparr>currentRound := currentRound roundA + 1, isRoundStarted := True,
           players := map (\<lambda>p. if isEliminated p then p
                                 else p\<lparr>hasDrawn := False, currentCard := None\<rparr>)
                         (players (markOut roundA (holding alice CHR ''h'' 5))),
           countdownEndsAt := Some (50000 + COUNTDOWN_DELAY),
           roundDeadline := Some (50000 + COUNTDOWN_DELAY + DRAW_TIMEOUT),
           wasTieBreaker := False\<rparr>)\<rparr>)"
    by blast
  from b dB(3) have rb: "tallyRound (paidWorld roundB) 50000 =
      (Some (Tie (minimalHolders (inScope roundB)) (currentRound roundB + 1)),
       (paidWorld roundB)\<lparr>gameKey := Some (roundB
          \<lparr>players := map (\<lambda>p. if p \<in> set (minimalHolders (inScope roundB))
                                then p\<lparr>hasDrawn := False, currentCard := None, inTieBreaker := True\<rparr>
                                else if isEliminated p then p
                                else p\<lparr>inTieBreaker := False\<rparr>)
                         (players roundB),
           isTieBreaker := True, wasTieBreaker := True,
           currentRound := currentRound roundB + 1, isRoundStarted := True,
           countdownEndsAt := Some (50000 + COUNTDOWN_DELAY),
           roundDeadline := Some (50000 + COUNTDOWN_DELAY + DRAW_TIMEOUT)\<rparr>)\<rparr>)"
    by simp
  from c dC(3) lC have rc: "tallyRound (paidWorld roundC) 50000 =
      (Some (GameOver (fst (finishGame (paidWorld roundC) (markOut roundC (holding bob CHR ''c'' 4))
          (filter (\<lambda>p. \<not> isEliminated p) (players (markOut roundC (holding bob CHR ''c'' 4))))
          (Some (holding bob CHR ''c'' 4))))),
       snd (finishGame (paidWorld roundC) (markOut roundC (holding bob CHR ''c'' 4))
          (filter (\<lambda>p. \<not> isEliminated p) (players (markOut roundC (holding bob CHR ''c'' 4))))
          (Some (holding bob CHR ''c'' 4))))"
    by blast
  have 1: "fst (tallyRound (paidWorld roundA) 50000) =
     Some (Eliminated (holding alice CHR ''h'' 5) 1 False) \<and>
   map_option (\<lambda>g. map (\<lambda>p. (isEliminated p, hasDrawn p)) (players g))
     (gameKey (snd (tallyRound (paidWorld roundA) 50000))) =
     Some [(True, True), (False, False), (False, False)]"
    unfolding ra by (simp add: round_defs demo_defs)
  have 2: "fst (tallyRound (paidWorld roundB) 50000) =
     Some (Tie [holding alice CHR ''h'' 5, holding bob CHR ''d'' 5] 1) \<and>
   map_option (\<lambda>g. map (\<lambda>p. (isEliminated p, inTieBreaker p, hasDrawn p)) (players g))
     (gameKey (snd (tallyRound (paidWorld roundB) 50000))) =
     Some [(False, True, False), (False, True, False), (False, False, True)]"
    unfolding rb by (simp add: round_defs demo_defs)
  have 3: "map_option (\<lambda>r. case r of GameOver i \<Rightarrow> (map_option userId (winner i), winningsOut i, houseFeeOut i)
                          | _ \<Rightarrow> (None, 0, 0))
     (fst (tallyRound (paidWorld roundC) 50000)) = Some (Some 3, 27, 3) \<and>
   users (snd (tallyRound (paidWorld roundC) 50000)) 3 = Some 117 \<and>
   gameKey (snd (tallyRound (paidWorld roundC) 50000)) = None"
    unfolding rc
    by (simp add: round_defs demo_defs finishGame_def payCommission_def addCredits_def
        cleanupRedisKeys_def HOUSE_FEE_PERCENT_def Let_def)
  from 1 2 3 show ?thesis by blast
qed

section \<open>Refunds\<close>

text \<open>
  C3 (as stated, it fails twice). A player marked eliminated is not credited by
  \<^verbatim>\<open>resetGame\<close>: Bob, eliminated, holds 90 after paying his entry of 10, and still holds 90
  after the reset. And a refund is the whole entry amount, also when tagged credits paid
  part of the entry: Alice holds 100, starts a game of entry 10 of which 4 are taken from
  her tagged credits and 6 from \<^verbatim>\<open>users.credits\<close>, cancels, and holds 104, not 100.
\<close>

theorem refund_counterexample:
  "gameKey (paidWorld (demoGame Playing [alice, out bob, carol])) =
     Some (demoGame Playing [alice, out bob, carol]) \<and>
   out bob \<in> set (players (demoGame Playing [alice, out bob, carol])) \<and>
   entryAmount (demoGame Playing [alice, out bob, carol]) = 10 \<and>
   users (paidWorld (demoGame Playing [alice, out bob, carol])) (userId (out bob)) = Some 90 \<and>
   users (snd (resetGame (paidWorld (demoGame Playing [alice, out bob, carol])))) (userId (out bob))
     \<noteq> Some (90 + 10) \<and>
   users demoWorld 1 = Some 100 \<and>
   success (fst (startGame demoWorld (demoStart\<lparr>hook := fourTagged\<rparr>) 1 ''alice'' (Some 10))) \<and>
   users (snd (startGame demoWorld (demoStart\<lparr>hook := fourTagged\<rparr>) 1 ''alice'' (Some 10))) 1 =
     Some 94 \<and>
   users (snd (cancelByStarter
      (snd (startGame demoWorld (demoStart\<lparr>hook := fourTagged\<rparr>) 1 ''alice'' (Some 10)))
      1 ''alice'')) 1 = Some 104"
  by (simp add: start_defs demo_defs fourTagged_def resetGame_def clearDeck_def clearTimer_def
      cancelByStarter_def cleanupRedisKeys_def)

text \<open>
  C3 (amended). In a snapshot with pairwise different user ids, every participant with
  a row in \<^verbatim>\<open>users\<close> is credited exactly the entry amount by \<^verbatim>\<open>cancelByStarter\<close> (by the
  starter, while waiting), by \<^verbatim>\<open>stopGame\<close> (while waiting) and by the branch of
  \<^verbatim>\<open>beginGame\<close> for fewer than two players; \<^verbatim>\<open>resetGame\<close> credits exactly the entry amount
  to every participant who is not eliminated, and nothing to an eliminated one. A
  participant who is credited, and whose entry \<^verbatim>\<open>deductCredits\<close> took wholly from
  \<^verbatim>\<open>users.credits\<close>, then holds the pre-start balance again; in general the balance after
  the refund is the pre-start balance plus the part of the entry that was not taken from
  \<^verbatim>\<open>users.credits\<close>.
\<close>

theorem refund_exact:
  assumes "gameKey w = Some g"
      and "distinct (map userId (players g))"
      and "p \<in> set (players g)"
      and "users w (userId p) = Some b"
  shows "(status g = Waiting \<and> startedBy g = uid \<longrightarrow>
            success (fst (cancelByStarter w uid uname)) \<and>
            users (snd (cancelByStarter w uid uname)) (userId p) = Some (b + entryAmount g) \<and>
            (deducted w0 h g p b0 b \<and>
             takenFromCredits h (userId p) (entryAmount g) = entryAmount g \<longrightarrow>
               users (snd (cancelByStarter w uid uname)) (userId p) = Some b0)) \<and>
         (status g = Waiting \<longrightarrow>
            success (fst (stopGame w)) \<and>
            users (snd (stopGame w)) (userId p) = Some (b + entryAmount g) \<and>
            (deducted w0 h g p b0 b \<and>
             takenFromCredits h (userId p) (entryAmount g) = entryAmount g \<longrightarrow>
               users (snd (stopGame w)) (userId p) = Some b0)) \<and>
         (status g = Waiting \<and> length (players g) < 2 \<longrightarrow>
            fst (beginGame w e) = Some Cancelled \<and>
            users (snd (beginGame w e)) (userId p) = Some (b + entryAmount g) \<and>
            (deducted w0 h g p b0 b \<and>
             takenFromCredits h (userId p) (entryAmount g) = entryAmount g \<longrightarrow>
               users (snd (beginGame w e)) (userId p) = Some b0)) \<and>
         (\<not> isEliminated p \<longrightarrow>
            users (snd (resetGame w)) (userId p) = Some (b + entryAmount g) \<and>
            (deducted w0 h g p b0 b \<and>
             takenFromCredits h (userId p) (entryAmount g) = entryAmount g \<longrightarrow>
               users (snd (resetGame w)) (userId p) = Some b0)) \<and>
         (isEliminated p \<longrightarrow> users (snd (resetGame w)) (userId p) = Some b) \<and>
         (deducted w0 h g p b0 b \<longrightarrow>
            b + entryAmount g =
              b0 + (entryAmount g - takenFromCredits h (userId p) (entryAmount g)))"
proof -
  note credit = refund_credit [OF assms, of uid uname e]
  have whole: "b + entryAmount g = b0"
    if "deducted w0 h g p b0 b \<and> takenFromCredits h (userId p) (entryAmount g) = entryAmount g"
    using deducted_balance [of w0 h g p b0 b] that by simp
  have gen: "deducted w0 h g p b0 b \<longrightarrow>
            b + entryAmount g =
              b0 + (entryAmount g - takenFromCredits h (userId p) (entryAmount g))"
    using deducted_balance [of w0 h g p b0 b] by simp
  from credit whole gen show ?thesis by (simp (no_asm_simp))
qed

theorem refund_exact_witness:
  "users demoWorld 2 = Some 100 \<and>
   users (snd (cancelByStarter (paidWorld (demoGame Waiting [alice, bob])) 1 ''alice'')) 2 = Some 100 \<and>
   users (snd (stopGame (paidWorld (demoGame Waiting [alice, bob])))) 2 = Some 100 \<and>
   users (snd (resetGame (paidWorld (demoGame Waiting [alice, bob])))) 2 = Some 100 \<and>
   users (snd (beginGame (paidWorld (demoGame Waiting [alice]))
      \<lparr>pnow = 31000, ptokens = [''c3''], prnd = (\<lambda>i. 0)\<rparr>)) 1 = Some 100 \<and>
   users (snd (resetGame (paidWorld (demoGame Playing [alice, out bob, carol])))) 2 = Some 90 \<and>
   deducted demoWorld fourTagged (demoGame Waiting [alice, bob]) bob 100 94 \<and>
   users (snd (stopGame taggedWorld)) 2 = Some 104"
proof -
  note a = refund_exact [where w = "paidWorld (demoGame Waiting [alice, bob])" and g = "demoGame Waiting [alice, bob]" and p = "bob" and b = 90
      and uid = 1 and uname = "''alice''" and e = "\<lparr>pnow = 31000, ptokens = [''c3''], prnd = (\<lambda>i. 0)\<rparr>"
      and ?w0.0 = demoWorld and h = noTags and ?b0.0 = 100]
  note b = refund_exact [where w = "paidWorld (demoGame Waiting [alice])" and g = "demoGame Waiting [alice]" and p = "alice" and b = 90
      and uid = 1 and uname = "''alice''" and e = "\<lparr>pnow = 31000, ptokens = [''c3''], prnd = (\<lambda>i. 0)\<rparr>"
      and ?w0.0 = demoWorld and h = noTags and ?b0.0 = 100]
  note c = refund_exact [where w = "paidWorld (demoGame Playing [alice, out bob, carol])" and g = "demoGame Playing [alice, out bob, carol]" and p = "out bob" and b = 90
      and uid = 1 and uname = "''alice''" and e = "\<lparr>pnow = 31000, ptokens = [''c3''], prnd = (\<lambda>i. 0)\<rparr>"
      and ?w0.0 = demoWorld and h = noTags and ?b0.0 = 100]
  note t = refund_exact [where w = "taggedWorld" and g = "demoGame Waiting [alice, bob]" and p = "bob" and b = 94
      and uid = 1 and uname = "''alice''" and e = "\<lparr>pnow = 31000, ptokens = [''c3''], prnd = (\<lambda>i. 0)\<rparr>"
      and ?w0.0 = demoWorld and h = fourTagged and ?b0.0 = 100]
  have d2: "deducted demoWorld noTags (demoGame Waiting [alice, bob]) bob 100 90"
    "takenFromCredits noTags (userId bob) (entryAmount (demoGame Waiting [alice, bob])) =
       entryAmount (demoGame Waiting [alice, bob])"
    by (simp_all add: deducted_def takenFromCredits_def deductCredits_def regularAmount_def
        getUserCredits_def demo_defs)
  have d1: "deducted demoWorld noTags (demoGame Waiting [alice]) alice 100 90"
    "takenFromCredits noTags (userId alice) (entryAmount (demoGame Waiting [alice])) =
       entryAmount (demoGame Waiting [alice])"
    by (simp_all add: deducted_def takenFromCredits_def deductCredits_def regularAmount_def
        getUserCredits_def demo_defs)
  have dt: "deducted demoWorld fourTagged (demoGame Waiting [alice, bob]) bob 100 94"
    by (simp add: deducted_def deductCredits_def regularAmount_def getUserCredits_def demo_defs
        fourTagged_def)
  have pa: "gameKey (paidWorld (demoGame Waiting [alice, bob])) = Some (demoGame Waiting [alice, bob])"
    "distinct (map userId (players (demoGame Waiting [alice, bob])))"
    "bob \<in> set (players (demoGame Waiting [alice, bob]))"
    "users (paidWorld (demoGame Waiting [alice, bob])) (userId bob) = Some 90"
    "status (demoGame Waiting [alice, bob]) = Waiting \<and> startedBy (demoGame Waiting [alice, bob]) = 1"
    "\<not> isEliminated bob"
    by (simp_all add: demo_defs)
  have pb: "gameKey (paidWorld (demoGame Waiting [alice])) = Some (demoGame Waiting [alice])"
    "distinct (map userId (players (demoGame Waiting [alice])))"
    "alice \<in> set (players (demoGame Waiting [alice]))"
    "users (paidWorld (demoGame Waiting [alice])) (userId alice) = Some 90"
    "status (demoGame Waiting [alice]) = Waiting \<and> length (players (demoGame Waiting [alice])) < 2"
    by (simp_all add: demo_defs)
  have pc: "gameKey (paidWorld (demoGame Playing [alice, out bob, carol])) =
      Some (demoGame Playing [alice, out bob, carol])"
    "distinct (map userId (players (demoGame Playing [alice, out bob, carol])))"
    "out bob \<in> set (players (demoGame Playing [alice, out bob, carol]))"
    "users (paidWorld (demoGame Playing [alice, out bob, carol])) (userId (out bob)) = Some 90"
    "isEliminated (out bob)"
    by (simp_all add: demo_defs)
  have pt: "gameKey taggedWorld = Some (demoGame Waiting [alice, bob])"
    "users taggedWorld (userId bob) = Some 94"
    by (simp_all add: taggedWorld_def demo_defs)
  have ids: "userId bob = 2" "userId alice = 1" "userId (out bob) = 2"
    "entryAmount (demoGame Waiting [alice, bob]) = 10"
    by (simp_all add: demo_defs)
  from a [OF pa(1-4)] pa(5,6) d2
  have 1: "users (snd (cancelByStarter (paidWorld (demoGame Waiting [alice, bob])) 1 ''alice'')) (userId bob) = Some 100 \<and>
   users (snd (stopGame (paidWorld (demoGame Waiting [alice, bob])))) (userId bob) = Some 100 \<and>
   users (snd (resetGame (paidWorld (demoGame Waiting [alice, bob])))) (userId bob) = Some 100"
    by blast
  from b [OF pb(1-4)] pb(5) d1
  have 2: "users (snd (beginGame (paidWorld (demoGame Waiting [alice]))
      \<lparr>pnow = 31000, ptokens = [''c3''], prnd = (\<lambda>i. 0)\<rparr>)) (userId alice) = Some 100"
    by blast
  from c [OF pc(1-4)] pc(5)
  have 3: "users (snd (resetGame (paidWorld (demoGame Playing [alice, out bob, carol])))) (userId (out bob)) = Some 90"
    by blast
  from t [OF pt(1) pa(2) pa(3) pt(2)] pa(5)
  have "users (snd (stopGame taggedWorld)) (userId bob) = Some (94 + entryAmount (demoGame Waiting [alice, bob]))"
    by blast
  then have 4: "users (snd (stopGame taggedWorld)) 2 = Some 104"
    by (simp add: ids)
  have 0: "users demoWorld 2 = Some 100" by (simp add: demoWorld_def)
  from 0 1 2 3 4 dt show ?thesis by (simp add: ids)
qed

section \<open>Failure paths of start\<close>




end
